theory Spec2Isabelle
  imports Complex_Main
begin

section \<open>Python values, exceptions and one-dimensional arrays\<close>

text \<open>
  The matching engine of \<^verbatim>\<open>specmatchemp/match.py\<close> works on one-dimensional numpy
  arrays of floats. An array is a \<open>real list\<close>; float64 arithmetic is idealised as
  arithmetic on \<open>real\<close> (rounding, infinities and NaN produced by arithmetic are outside the
  model; the one NaN the code writes down itself, the initial \<open>best_chisq\<close>, is a value of
  its own). Every exception the code can raise is a value of \<open>error\<close>, and a call that
  raises returns \<open>Inl\<close> of it.
\<close>

datatype error =
    IndexError
  | KeyError string
  | AttributeError string
  | ValueError
  | TypeError
  | UnboundLocalError string
  | NoReturn

text \<open>What \<open>objective\<close> can hand back: an array, a float, NaN, or Python's \<open>None\<close>.\<close>

datatype pyval = Array "real list" | Scalar real | NaN | NoneV

definition bindE :: "error + 'a \<Rightarrow> ('a \<Rightarrow> error + 'b) \<Rightarrow> error + 'b" where
  "bindE m f = (case m of Inl e \<Rightarrow> Inl e | Inr x \<Rightarrow> f x)"

text \<open>
  A binary operator on two one-dimensional arrays: element by element when the lengths
  agree, an array of length one is broadcast, any other pair of shapes raises ValueError.
\<close>

definition np_binop :: "(real \<Rightarrow> real \<Rightarrow> real) \<Rightarrow> real list \<Rightarrow> real list \<Rightarrow> error + real list" where
  "np_binop f xs ys =
     (if length xs = length ys then Inr (map2 f xs ys)
      else if length xs = 1 then Inr (map (f (hd xs)) ys)
      else if length ys = 1 then Inr (map (\<lambda>x. f x (hd ys)) xs)
      else Inl ValueError)"

text \<open>
  The in-place operators \<^verbatim>\<open>xs += ys\<close> and \<^verbatim>\<open>xs *= ys\<close> keep the shape of \<open>xs\<close>:
  only \<open>ys\<close> may be broadcast.
\<close>

definition np_inplace :: "(real \<Rightarrow> real \<Rightarrow> real) \<Rightarrow> real list \<Rightarrow> real list \<Rightarrow> error + real list" where
  "np_inplace f xs ys =
     (if length ys = length xs then Inr (map2 f xs ys)
      else if length ys = 1 then Inr (map (\<lambda>x. f x (hd ys)) xs)
      else Inl ValueError)"

text \<open>\<^verbatim>\<open>row[...] = new\<close> on a row of a numpy array: the row keeps its length.\<close>

definition np_assign_row :: "real list \<Rightarrow> real list \<Rightarrow> error + real list" where
  "np_assign_row old new =
     (if length new = length old then Inr new
      else if length new = 1 then Inr (replicate (length old) (hd new))
      else Inl ValueError)"

definition np_square :: "real list \<Rightarrow> real list" where
  "np_square xs = map (\<lambda>x. x\<^sup>2) xs"

definition np_sqrt :: "real list \<Rightarrow> real list" where
  "np_sqrt xs = map sqrt xs"

definition np_sum :: "real list \<Rightarrow> real" where
  "np_sum xs = sum_list xs"

text \<open>\<^verbatim>\<open>np.sum(v**2)\<close> on whatever \<open>objective\<close> returned.\<close>

definition np_sum_sq :: "pyval \<Rightarrow> error + pyval" where
  "np_sum_sq v =
     (case v of
        Array r \<Rightarrow> Inr (Scalar (np_sum (np_square r)))
      | Scalar x \<Rightarrow> Inr (Scalar (x\<^sup>2))
      | NaN \<Rightarrow> Inr NaN
      | NoneV \<Rightarrow> Inl TypeError)"

text \<open>\<^verbatim>\<open>v += c\<close> for a float \<open>c\<close>.\<close>

definition py_iadd :: "pyval \<Rightarrow> real \<Rightarrow> error + pyval" where
  "py_iadd v c =
     (case v of
        Array r \<Rightarrow> Inr (Array (map (\<lambda>x. x + c) r))
      | Scalar x \<Rightarrow> Inr (Scalar (x + c))
      | NaN \<Rightarrow> Inr NaN
      | NoneV \<Rightarrow> Inl TypeError)"

section \<open>The parameter container of lmfit\<close>

text \<open>
  \<^verbatim>\<open>lmfit.Parameters\<close> is a dictionary from names to parameters (value, bounds,
  vary flag); \<^verbatim>\<open>add\<close> stores the parameter under its name, replacing one that is
  already there, and reading a missing name raises KeyError. An absent bound is \<open>None\<close>.
\<close>

record parameter =
  pvalue :: real
  pmin :: "real option"
  pmax :: "real option"
  vary :: bool

type_synonym Parameters = "string \<rightharpoonup> parameter"

definition Parameters_add :: "Parameters \<Rightarrow> string \<Rightarrow> real \<Rightarrow> real option \<Rightarrow> real option \<Rightarrow> bool \<Rightarrow> Parameters" where
  "Parameters_add params name v lo hi vy =
     params(name \<mapsto> \<lparr>pvalue = v, pmin = lo, pmax = hi, vary = vy\<rparr>)"

definition param_value :: "Parameters \<Rightarrow> string \<Rightarrow> error + real" where
  "param_value params name =
     (case params name of None \<Rightarrow> Inl (KeyError name) | Some q \<Rightarrow> Inr (pvalue q))"

text \<open>The name \<^verbatim>\<open>'coeff_{0:d}'.format(i)\<close>.\<close>

function string_of_nat :: "nat \<Rightarrow> string" where
  "string_of_nat n =
     (if n < 10 then [''0123456789'' ! n]
      else string_of_nat (n div 10) @ [''0123456789'' ! (n mod 10)])"
  by pat_completeness auto
termination
  by (relation "measure id") auto

declare string_of_nat.simps [simp del]

definition coeff_name :: "nat \<Rightarrow> string" where
  "coeff_name i = ''coeff_'' @ string_of_nat i"

section \<open>The external collaborators\<close>

text \<open>
  The kernel generator \<^verbatim>\<open>specmatchemp.kernels.rot\<close>, scipy's \<^verbatim>\<open>convolve1d\<close> and
  \<^verbatim>\<open>LSQUnivariateSpline\<close>, and \<^verbatim>\<open>lmfit.minimize\<close> are not part of the engine: they are
  parameters of the model, and each may raise. The optimizer reaches the match object only
  by calling the objective it is given, so it is a strategy: from the method, the starting
  parameters and the evaluations made so far it asks for one more evaluation, finishes with
  the parameters of its result, or raises.
\<close>

datatype request = Evaluate Parameters | Finish Parameters | Abort error

record externals =
  rot :: "nat \<Rightarrow> real \<Rightarrow> real \<Rightarrow> error + (real list \<times> real list)"
  convolve1d :: "real list \<Rightarrow> real list \<Rightarrow> error + real list"
  LSQUnivariateSpline ::
    "real list \<Rightarrow> real list \<Rightarrow> real list \<Rightarrow> error + (real list \<Rightarrow> error + real list)"
  minimizer :: "string \<Rightarrow> Parameters \<Rightarrow> (Parameters \<times> pyval) list \<Rightarrow> request"

text \<open>
  \<^verbatim>\<open>lmfit.minimize(objective, params, method)\<close>: the strategy is run against the
  objective, which updates the match object at every evaluation. The fuel bounds the number
  of rounds; an optimizer that has not finished by then has not returned.
\<close>

fun lmfit_minimize ::
  "((Parameters \<times> pyval) list \<Rightarrow> request) \<Rightarrow> (Parameters \<Rightarrow> 's \<Rightarrow> error + (pyval \<times> 's)) \<Rightarrow>
   nat \<Rightarrow> (Parameters \<times> pyval) list \<Rightarrow> 's \<Rightarrow> error + (Parameters \<times> 's)" where
  "lmfit_minimize strategy fcn 0 hist self = Inl NoReturn"
| "lmfit_minimize strategy fcn (Suc fuel) hist self =
     (case strategy hist of
        Finish out \<Rightarrow> Inr (out, self)
      | Abort e \<Rightarrow> Inl e
      | Evaluate p \<Rightarrow>
          (case fcn p self of
             Inl e \<Rightarrow> Inl e
           | Inr (v, self') \<Rightarrow> lmfit_minimize strategy fcn fuel (hist @ [(p, v)]) self'))"

section \<open>The match object\<close>

text \<open>
  The attributes both classes set in \<^verbatim>\<open>__init__\<close>, and the three that only
  \<^verbatim>\<open>create_model\<close> sets (\<open>None\<close> until then: reading them raises AttributeError).
  \<^verbatim>\<open>Match\<close> adds the reference spectrum, \<^verbatim>\<open>MatchLincomb\<close> the list of references.
\<close>

record match_base =
  w :: "real list"
  s_targ :: "real list"
  serr_targ :: "real list"
  best_params :: Parameters
  best_chisq :: pyval
  mode :: string
  opt :: string
  knot_x :: "real list"
  s_mod :: "real list option"
  serr_mod :: "real list option"
  spl :: "real list option"

record Match = match_base +
  s_ref :: "real list"
  serr_ref :: "real list"

record MatchLincomb = match_base +
  num_refs :: nat
  s_refs :: "(real list \<times> real list) list"

subsection \<open>Spline knots (the loop at the end of both constructors)\<close>

fun knot_loop :: "real list \<Rightarrow> nat \<Rightarrow> real list \<Rightarrow> nat list \<Rightarrow> error + real list" where
  "knot_loop wav interval acc [] = Inr acc"
| "knot_loop wav interval acc (i # rest) =
     (if interval * i < length wav
      then knot_loop wav interval (acc @ [wav ! (interval * i)]) rest
      else Inl IndexError)"

definition add_spline_knots :: "real list \<Rightarrow> error + real list" where
  "add_spline_knots wav =
     (let num_knots = 5;
          interval = length wav div (num_knots + 1)
      in knot_loop wav interval [] [1 ..< num_knots + 1])"

subsection \<open>Match\<close>

definition Match_init ::
  "real list \<Rightarrow> real list \<times> real list \<Rightarrow> real list \<times> real list \<Rightarrow> string \<Rightarrow> string \<Rightarrow> error + Match" where
  "Match_init wav targ ref md op =
     bindE (add_spline_knots wav) (\<lambda>knots.
       Inr \<lparr>w = wav, s_targ = fst targ, serr_targ = snd targ,
            best_params = Map.empty, best_chisq = NaN, mode = md, opt = op,
            knot_x = knots, s_mod = None, serr_mod = None, spl = None,
            s_ref = fst ref, serr_ref = snd ref\<rparr>)"

text \<open>
  \<^verbatim>\<open>broaden\<close> reads only \<^verbatim>\<open>self.w\<close>, which is its first argument here. The kernel has
  151 points; \<^verbatim>\<open>w[1]\<close> raises IndexError on a grid shorter than two samples.
\<close>

definition broaden :: "externals \<Rightarrow> real list \<Rightarrow> real \<Rightarrow> real list \<Rightarrow> error + real list" where
  "broaden ext wav vsini spec =
     (if length wav < 2 then Inl IndexError
      else
        let SPEED_OF_LIGHT = 299792;
            dv = (wav ! 1 - wav ! 0) / wav ! 0 * SPEED_OF_LIGHT;
            n = 151
        in bindE (rot ext n dv vsini) (\<lambda>(varr, kernel). convolve1d ext spec kernel))"

text \<open>
  The last four lines of both \<^verbatim>\<open>create_model\<close> methods: fit the spline to
  \<^verbatim>\<open>s_targ / s_mod\<close>, evaluate it on the grid, scale model and error in place.
\<close>

definition fit_spline ::
  "externals \<Rightarrow> real list \<Rightarrow> real list \<Rightarrow> 'a match_base_scheme \<Rightarrow> error + 'a match_base_scheme" where
  "fit_spline ext smod serrmod self =
     bindE (np_binop (/) (s_targ self) smod) (\<lambda>ratio.
     bindE (LSQUnivariateSpline ext (w self) ratio (knot_x self)) (\<lambda>s.
     bindE (s (w self)) (\<lambda>sp.
     bindE (np_inplace (*) smod sp) (\<lambda>smod'.
     bindE (np_inplace (*) serrmod sp) (\<lambda>serrmod'.
       Inr (self\<lparr>s_mod := Some smod', serr_mod := Some serrmod', spl := Some sp\<rparr>))))))"

definition Match_create_model :: "externals \<Rightarrow> Parameters \<Rightarrow> Match \<Rightarrow> error + Match" where
  "Match_create_model ext params self =
     bindE (param_value params ''vsini'') (\<lambda>vsini.
     bindE (broaden ext (w self) vsini (s_ref self)) (\<lambda>smod.
     bindE (broaden ext (w self) vsini (serr_ref self)) (\<lambda>serrmod.
       fit_spline ext smod serrmod self)))"

text \<open>
  The residual expression of \<^verbatim>\<open>objective\<close> and \<^verbatim>\<open>best_residuals\<close> (the same in
  both), in Python's order of evaluation.
\<close>

definition residuals :: "'a match_base_scheme \<Rightarrow> error + real list" where
  "residuals self =
     (case s_mod self of
        None \<Rightarrow> Inl (AttributeError ''s_mod'')
      | Some smod \<Rightarrow>
          bindE (np_binop (-) (s_targ self) smod) (\<lambda>diff.
            if mode self = ''normalized'' then
              (case serr_mod self of
                 None \<Rightarrow> Inl (AttributeError ''serr_mod'')
               | Some serrmod \<Rightarrow>
                   bindE (np_binop (+) (np_square (serr_targ self)) (np_square serrmod)) (\<lambda>var.
                     np_binop (/) diff (np_sqrt var)))
            else Inr diff))"

text \<open>
  \<^verbatim>\<open>Match.objective\<close>. The call \<^verbatim>\<open>self.create_model(params)\<close> goes to the method of
  the object's class, which is the first argument here: \<open>Match_create_model\<close> for a
  \<^verbatim>\<open>Match\<close>, \<open>MatchLincomb_create_model\<close> for a \<^verbatim>\<open>MatchLincomb\<close>.
\<close>

definition Match_objective ::
  "(Parameters \<Rightarrow> 'a match_base_scheme \<Rightarrow> error + 'a match_base_scheme) \<Rightarrow>
   Parameters \<Rightarrow> 'a match_base_scheme \<Rightarrow> error + (pyval \<times> 'a match_base_scheme)" where
  "Match_objective create_model params self =
     bindE (create_model params self) (\<lambda>self'.
     bindE (residuals self') (\<lambda>res.
       let chi_square = np_sum (np_square res)
       in if opt self' = ''lm'' then Inr (Array res, self')
          else if opt self' = ''nelder'' then Inr (Scalar chi_square, self')
          else Inr (NoneV, self')))"

definition Match_best_fit ::
  "externals \<Rightarrow> nat \<Rightarrow> Parameters option \<Rightarrow> Match \<Rightarrow> error + (pyval \<times> Match)" where
  "Match_best_fit ext fuel params_arg self =
     (let params = (case params_arg of None \<Rightarrow> Map.empty | Some p \<Rightarrow> p);
          params = Parameters_add params ''vsini'' 1 (Some 0) (Some 10) True;
          objective = Match_objective (Match_create_model ext)
      in if opt self = ''lm'' then
           bindE (lmfit_minimize (minimizer ext ''leastsq'' params) objective fuel [] self)
             (\<lambda>(out, self1).
           bindE (objective out self1) (\<lambda>(v, self2).
           bindE (np_sum_sq v) (\<lambda>chisq.
             Inr (chisq, self2\<lparr>best_chisq := chisq, best_params := out\<rparr>))))
         else if opt self = ''nelder'' then
           bindE (lmfit_minimize (minimizer ext ''nelder'' params) objective fuel [] self)
             (\<lambda>(out, self1).
           bindE (objective out self1) (\<lambda>(v, self2).
             Inr (v, self2\<lparr>best_chisq := v, best_params := out\<rparr>)))
         else Inl (UnboundLocalError ''out''))"

definition best_residuals :: "'a match_base_scheme \<Rightarrow> error + real list" where
  "best_residuals self = residuals self"

subsection \<open>MatchLincomb\<close>

text \<open>
  The references are a three-dimensional array: a list of (flux, error) rows of one common
  length. The constructor broadens every row in place.
\<close>

fun broaden_refs ::
  "externals \<Rightarrow> real list \<Rightarrow> real list \<Rightarrow> (real list \<times> real list) list \<Rightarrow> nat list \<Rightarrow>
   error + (real list \<times> real list) list" where
  "broaden_refs ext wav vsini refs [] = Inr refs"
| "broaden_refs ext wav vsini refs (i # rest) =
     (if length vsini \<le> i \<or> length refs \<le> i then Inl IndexError
      else
        bindE (broaden ext wav (vsini ! i) (fst (refs ! i))) (\<lambda>b0.
        bindE (np_assign_row (fst (refs ! i)) b0) (\<lambda>r0.
        bindE (broaden ext wav (vsini ! i) (snd (refs ! i))) (\<lambda>b1.
        bindE (np_assign_row (snd (refs ! i)) b1) (\<lambda>r1.
          broaden_refs ext wav vsini (refs[i := (r0, r1)]) rest)))))"

definition MatchLincomb_init ::
  "externals \<Rightarrow> real list \<Rightarrow> real list \<times> real list \<Rightarrow> (real list \<times> real list) list \<Rightarrow>
   real list \<Rightarrow> string \<Rightarrow> string \<Rightarrow> error + MatchLincomb" where
  "MatchLincomb_init ext wav targ refs vsini md op =
     (let n_refs = length refs
      in bindE (broaden_refs ext wav vsini refs [0 ..< n_refs]) (\<lambda>refs'.
         bindE (add_spline_knots wav) (\<lambda>knots.
           Inr \<lparr>w = wav, s_targ = fst targ, serr_targ = snd targ,
                best_params = Map.empty, best_chisq = NaN, mode = md, opt = op,
                knot_x = knots, s_mod = None, serr_mod = None, spl = None,
                num_refs = n_refs, s_refs = refs'\<rparr>)))"

fun lincomb_loop ::
  "Parameters \<Rightarrow> (real list \<times> real list) list \<Rightarrow> real list \<times> real list \<Rightarrow> nat list \<Rightarrow>
   error + (real list \<times> real list)" where
  "lincomb_loop params refs acc [] = Inr acc"
| "lincomb_loop params refs acc (i # rest) =
     (if length refs \<le> i then Inl IndexError
      else
        bindE (param_value params (coeff_name i)) (\<lambda>c.
        bindE (np_inplace (+) (fst acc) (map (\<lambda>x. x * c) (fst (refs ! i)))) (\<lambda>smod.
        bindE (np_inplace (+) (snd acc) (map (\<lambda>x. x * c) (snd (refs ! i)))) (\<lambda>serrmod.
          lincomb_loop params refs (smod, serrmod) rest))))"

definition MatchLincomb_create_model ::
  "externals \<Rightarrow> Parameters \<Rightarrow> MatchLincomb \<Rightarrow> error + MatchLincomb" where
  "MatchLincomb_create_model ext params self =
     (let zeros = replicate (length (w self)) 0
      in bindE (lincomb_loop params (s_refs self) (zeros, zeros) [0 ..< num_refs self])
           (\<lambda>(smod, serrmod). fit_spline ext smod serrmod self))"

fun sum_coeff_loop :: "Parameters \<Rightarrow> real \<Rightarrow> nat list \<Rightarrow> error + real" where
  "sum_coeff_loop params sum_coeff [] = Inr sum_coeff"
| "sum_coeff_loop params sum_coeff (i # rest) =
     bindE (param_value params (coeff_name i)) (\<lambda>c.
       sum_coeff_loop params (sum_coeff + c) rest)"

definition MatchLincomb_objective ::
  "externals \<Rightarrow> Parameters \<Rightarrow> MatchLincomb \<Rightarrow> error + (pyval \<times> MatchLincomb)" where
  "MatchLincomb_objective ext params self =
     bindE (Match_objective (MatchLincomb_create_model ext) params self) (\<lambda>(chi_square, self').
     bindE (sum_coeff_loop params 0 [0 ..< num_refs self']) (\<lambda>sum_coeff.
       let WIDTH = 1 / 1000
       in bindE (py_iadd chi_square ((sum_coeff - 1)\<^sup>2 / (2 * WIDTH\<^sup>2))) (\<lambda>chi_square'.
            Inr (chi_square', self'))))"

fun add_coeff_loop :: "nat \<Rightarrow> Parameters \<Rightarrow> nat list \<Rightarrow> Parameters" where
  "add_coeff_loop n params [] = params"
| "add_coeff_loop n params (i # rest) =
     add_coeff_loop n (Parameters_add params (coeff_name i) (1 / real n) (Some 0) (Some 1) True) rest"

definition add_lincomb_params :: "MatchLincomb \<Rightarrow> Parameters \<Rightarrow> Parameters" where
  "add_lincomb_params self params =
     (let params = Parameters_add params ''num_refs'' (real (num_refs self)) None None False
      in add_coeff_loop (num_refs self) params [0 ..< num_refs self])"

definition MatchLincomb_best_fit ::
  "externals \<Rightarrow> nat \<Rightarrow> MatchLincomb \<Rightarrow> error + (pyval \<times> MatchLincomb)" where
  "MatchLincomb_best_fit ext fuel self =
     (let params = add_lincomb_params self Map.empty
      in bindE (lmfit_minimize (minimizer ext ''nelder'' params) (MatchLincomb_objective ext)
                  fuel [] self) (\<lambda>(out, self1).
         let self2 = self1\<lparr>best_params := out\<rparr>
         in bindE (MatchLincomb_objective ext (best_params self2) self2) (\<lambda>(v, self3).
              Inr (v, self3\<lparr>best_chisq := v\<rparr>))))"

section \<open>A concrete instance, and the residuals in the words of the specification\<close>

text \<open>
  A small instance of the collaborators, used to run the model on concrete inputs: the
  kernel is a single unit weight, the convolution returns the spectrum as it is, the
  spline is the constant one, and the optimizer evaluates its starting parameters once and
  finishes with them.
\<close>

definition unit_externals :: externals where
  "unit_externals =
     \<lparr>rot = (\<lambda>n dv vsini. Inr ([0], [1])),
      convolve1d = (\<lambda>spec kernel. Inr spec),
      LSQUnivariateSpline = (\<lambda>x y t. Inr (\<lambda>xs. Inr (map (\<lambda>_. 1) xs))),
      minimizer = (\<lambda>method params hist.
         case hist of [] \<Rightarrow> Evaluate params | _ \<Rightarrow> Finish params)\<rparr>"

definition grid7 :: "real list" where
  "grid7 = [5000, 5001, 5002, 5003, 5004, 5005, 5006]"

definition flat7 :: "real list" where
  "flat7 = [1, 1, 1, 1, 1, 1, 1]"

text \<open>
  The residual sequence as the specification words it: target flux minus model flux, divided
  element by element by the root-sum-square of the two uncertainties when the mode is
  normalized.
\<close>

definition residual_spec :: "bool \<Rightarrow> real list \<Rightarrow> real list \<Rightarrow> real list \<Rightarrow> real list \<Rightarrow> real list" where
  "residual_spec normalized targ targ_err model model_err =
     map (\<lambda>i. if normalized
               then (targ ! i - model ! i) / sqrt ((targ_err ! i)\<^sup>2 + (model_err ! i)\<^sup>2)
               else targ ! i - model ! i)
         [0 ..< length targ]"

text \<open>
  A \<^verbatim>\<open>Match\<close> on a grid of seven samples, as the constructor builds it, and a parameter
  container holding \<^verbatim>\<open>vsini\<close> alone.
\<close>

definition match7 :: "string \<Rightarrow> string \<Rightarrow> Match" where
  "match7 md op =
     \<lparr>w = grid7, s_targ = [11, 11, 11, 11, 11, 11, 11], serr_targ = [3, 3, 3, 3, 3, 3, 3],
      best_params = Map.empty, best_chisq = NaN, mode = md, opt = op,
      knot_x = [5001, 5002, 5003, 5004, 5005], s_mod = None, serr_mod = None, spl = None,
      s_ref = flat7, serr_ref = [4, 4, 4, 4, 4, 4, 4]\<rparr>"

definition vsini_params :: "real \<Rightarrow> Parameters" where
  "vsini_params v = Parameters_add Map.empty ''vsini'' v (Some 0) (Some 10) True"

text \<open>
  The seven-sample \<^verbatim>\<open>Match\<close> after \<^verbatim>\<open>create_model\<close> on the instance of the
  collaborators.
\<close>

definition fitted7 :: "string \<Rightarrow> string \<Rightarrow> Match" where
  "fitted7 md op =
     (match7 md op)\<lparr>s_mod := Some flat7, serr_mod := Some [4, 4, 4, 4, 4, 4, 4],
                     spl := Some flat7\<rparr>"

text \<open>
  A \<^verbatim>\<open>MatchLincomb\<close> on the same grid with two references, a container with the two
  coefficients, and the object after \<^verbatim>\<open>create_model\<close> when the coefficients sum to \<open>c\<close>.
\<close>

definition lincomb7 :: "string \<Rightarrow> string \<Rightarrow> MatchLincomb" where
  "lincomb7 md op =
     \<lparr>w = grid7, s_targ = [11, 11, 11, 11, 11, 11, 11], serr_targ = [3, 3, 3, 3, 3, 3, 3],
      best_params = Map.empty, best_chisq = NaN, mode = md, opt = op,
      knot_x = [5001, 5002, 5003, 5004, 5005], s_mod = None, serr_mod = None, spl = None,
      num_refs = 2,
      s_refs = [(flat7, [4, 4, 4, 4, 4, 4, 4]), (flat7, [4, 4, 4, 4, 4, 4, 4])]\<rparr>"

definition coeff_params :: "real \<Rightarrow> real \<Rightarrow> Parameters" where
  "coeff_params c0 c1 =
     Parameters_add
       (Parameters_add
          (Parameters_add Map.empty ''num_refs'' 2 None None False)
          ''coeff_0'' c0 (Some 0) (Some 1) True)
       ''coeff_1'' c1 (Some 0) (Some 1) True"

definition lincomb_fitted7 :: "string \<Rightarrow> string \<Rightarrow> real \<Rightarrow> MatchLincomb" where
  "lincomb_fitted7 md op c =
     (lincomb7 md op)\<lparr>s_mod := Some [c, c, c, c, c, c, c],
                       serr_mod := Some [4 * c, 4 * c, 4 * c, 4 * c, 4 * c, 4 * c, 4 * c],
                       spl := Some flat7\<rparr>"

text \<open>
  A second instance of the collaborators, whose optimizer accepts the method \<^verbatim>\<open>nelder\<close>
  alone (it raises on any other) and finishes with both coefficients equal to 1, away
  from its starting point.
\<close>

definition nelder_externals :: externals where
  "nelder_externals =
     unit_externals\<lparr>minimizer := (\<lambda>method params hist.
        if method = ''nelder''
        then (case hist of [] \<Rightarrow> Evaluate params | _ \<Rightarrow> Finish (coeff_params 1 1))
        else Abort ValueError)\<rparr>"

text \<open>
  A container as a caller may pass it to \<^verbatim>\<open>Match.best_fit\<close>: a \<^verbatim>\<open>vsini\<close> of 5 and
  one more entry.
\<close>

definition caller_params :: Parameters where
  "caller_params =
     (Parameters_add Map.empty ''vsini'' 5 (Some 0) (Some 10) True)
       (''teff'' \<mapsto> \<lparr>pvalue = 5800, pmin = None, pmax = None, vary = False\<rparr>)"

section \<open>Auxiliary lemmas\<close>

lemma bindE_Inl [simp]: "bindE (Inl e) f = Inl e"
  by (simp add: bindE_def)

lemma bindE_Inr [simp]: "bindE (Inr x) f = f x"
  by (simp add: bindE_def)

lemma bindE_eq_Inr: "bindE m f = Inr y \<longleftrightarrow> (\<exists>x. m = Inr x \<and> f x = Inr y)"
  by (cases m) simp_all

lemma knot_loop_in_range:
  "\<forall>i\<in>set idxs. interval * i < length wav \<Longrightarrow>
   knot_loop wav interval acc idxs = Inr (acc @ map (\<lambda>i. wav ! (interval * i)) idxs)"
  by (induction idxs arbitrary: acc) simp_all

lemma knot_index_bound:
  assumes "0 < n" and "i < 6"
  shows "n div 6 * i < (n::nat)"
proof -
  have "n div 6 * i \<le> n div 6 * 5" using assms(2) by simp
  also have "\<dots> < n" using assms(1) by arith
  finally show ?thesis .
qed

lemma add_spline_knots_nonempty:
  assumes "wav \<noteq> []"
  shows "add_spline_knots wav = Inr (map (\<lambda>i. wav ! (length wav div 6 * i)) [1 ..< 6])"
proof -
  have "\<forall>i\<in>set [1 ..< 6]. length wav div 6 * i < length wav"
    using assms by (simp add: knot_index_bound)
  from knot_loop_in_range [OF this, of "[]"] have
    "knot_loop wav (length wav div 6) [] [1 ..< 6]
     = Inr (map (\<lambda>i. wav ! (length wav div 6 * i)) [1 ..< 6])" by simp
  moreover have "(5::nat) + 1 = 6" by simp
  ultimately show ?thesis
    unfolding add_spline_knots_def Let_def by (simp only:)
qed

lemma add_spline_knots_empty: "add_spline_knots [] = Inl IndexError"
  by (simp add: add_spline_knots_def upt_conv_Cons)

lemma fit_spline_result:
  assumes "fit_spline ext smod serrmod self = Inr self'"
  shows "\<exists>a b c. self' = self\<lparr>s_mod := Some a, serr_mod := Some b, spl := Some c\<rparr>"
  using assms by (auto simp: fit_spline_def bindE_eq_Inr)

lemma fit_spline_indep:
  "fit_spline ext smod serrmod (self\<lparr>s_mod := a, serr_mod := b, spl := c\<rparr>)
   = fit_spline ext smod serrmod self"
  by (simp add: fit_spline_def)

lemma Match_create_model_result:
  assumes "Match_create_model ext params self = Inr self'"
  shows "\<exists>a b c. self' = self\<lparr>s_mod := Some a, serr_mod := Some b, spl := Some c\<rparr>"
  using assms by (auto simp: Match_create_model_def bindE_eq_Inr dest: fit_spline_result)

lemma Match_create_model_indep:
  "Match_create_model ext params (self\<lparr>s_mod := a, serr_mod := b, spl := c\<rparr>)
   = Match_create_model ext params self"
  by (simp add: Match_create_model_def fit_spline_indep)

lemma Match_create_model_idem:
  assumes "Match_create_model ext params self = Inr self'"
  shows "Match_create_model ext params self' = Inr self'"
proof -
  from Match_create_model_result [OF assms] obtain a b c
    where s: "self' = self\<lparr>s_mod := Some a, serr_mod := Some b, spl := Some c\<rparr>" by blast
  have "Match_create_model ext params self' = Match_create_model ext params self"
    unfolding s by (rule Match_create_model_indep)
  with assms show ?thesis by simp
qed

lemma np_binop_same_length:
  assumes "length ys = length xs"
  shows "np_binop f xs ys = Inr (map (\<lambda>i. f (xs ! i) (ys ! i)) [0 ..< length xs])"
proof -
  have "map2 f xs ys = map (\<lambda>i. f (xs ! i) (ys ! i)) [0 ..< length xs]"
    by (rule nth_equalityI) (simp_all add: assms)
  with assms show ?thesis by (simp add: np_binop_def)
qed

lemma residuals_elementwise:
  assumes "s_mod self = Some smod" and "serr_mod self = Some serrmod"
    and "length smod = length (s_targ self)"
    and "mode self = ''normalized'' \<longrightarrow>
           length (serr_targ self) = length (s_targ self) \<and> length serrmod = length (s_targ self)"
  shows "residuals self
         = Inr (residual_spec (mode self = ''normalized'') (s_targ self) (serr_targ self) smod serrmod)"
proof (cases "mode self = ''normalized''")
  case False
  with assms show ?thesis
    by (simp add: residuals_def residual_spec_def np_binop_same_length)
next
  case True
  with assms have l: "length (serr_targ self) = length (s_targ self)"
    "length serrmod = length (s_targ self)" by simp_all
  have v: "np_binop (+) (np_square (serr_targ self)) (np_square serrmod)
     = Inr (map (\<lambda>i. (serr_targ self ! i)\<^sup>2 + (serrmod ! i)\<^sup>2) [0 ..< length (s_targ self)])"
    using l by (simp add: np_binop_same_length np_square_def)
  have d: "np_binop (-) (s_targ self) smod
     = Inr (map (\<lambda>i. s_targ self ! i - smod ! i) [0 ..< length (s_targ self)])"
    using assms(3) by (simp add: np_binop_same_length)
  have q: "np_binop (/) (map (\<lambda>i. s_targ self ! i - smod ! i) [0 ..< length (s_targ self)])
        (np_sqrt (map (\<lambda>i. (serr_targ self ! i)\<^sup>2 + (serrmod ! i)\<^sup>2) [0 ..< length (s_targ self)]))
     = Inr (map (\<lambda>i. (s_targ self ! i - smod ! i) / sqrt ((serr_targ self ! i)\<^sup>2 + (serrmod ! i)\<^sup>2))
             [0 ..< length (s_targ self)])"
    by (simp add: np_binop_same_length np_sqrt_def)
  show ?thesis
    using True assms(1,2) by (simp add: residuals_def v d q residual_spec_def)
qed

lemma Match_create_model_keeps:
  assumes "Match_create_model ext params self = Inr self'"
  shows "opt self' = opt self" "mode self' = mode self" "s_targ self' = s_targ self"
    "serr_targ self' = serr_targ self" "s_mod self' \<noteq> None"
  using Match_create_model_result [OF assms] by auto

lemma sqrt25: "sqrt 25 = 5"
  using real_sqrt_abs [of 5] by simp

lemma broaden_unit: "2 \<le> length wav \<Longrightarrow> broaden unit_externals wav vsini spec = Inr spec"
  by (simp add: broaden_def unit_externals_def Let_def)

lemma fit_spline_unit:
  assumes "length smod = length (w self)" and "length serrmod = length (w self)"
    and "length (s_targ self) = length (w self)"
  shows "fit_spline unit_externals smod serrmod self
         = Inr (self\<lparr>s_mod := Some smod, serr_mod := Some serrmod,
                       spl := Some (map (\<lambda>_. 1) (w self))\<rparr>)"
proof -
  have m: "map2 (*) xs (map (\<lambda>_. 1) (w self)) = xs" if "length xs = length (w self)"
    for xs :: "real list"
    by (rule nth_equalityI) (simp_all add: that)
  show ?thesis
    using assms by (simp add: fit_spline_def np_binop_def np_inplace_def unit_externals_def m)
qed

lemma match7_create_model:
  "Match_create_model unit_externals (vsini_params v) (match7 md op)
   = Inr ((match7 md op)\<lparr>s_mod := Some flat7, serr_mod := Some [4, 4, 4, 4, 4, 4, 4],
                          spl := Some flat7\<rparr>)"
proof -
  have b: "\<And>spec. broaden unit_externals (w (match7 md op)) v spec = Inr spec"
    by (rule broaden_unit) (simp add: match7_def grid7_def)
  have p: "param_value (vsini_params v) ''vsini'' = Inr v"
    by (simp add: vsini_params_def Parameters_add_def param_value_def)
  have f: "fit_spline unit_externals (s_ref (match7 md op)) (serr_ref (match7 md op)) (match7 md op)
     = Inr ((match7 md op)\<lparr>s_mod := Some (s_ref (match7 md op)),
              serr_mod := Some (serr_ref (match7 md op)),
              spl := Some (map (\<lambda>_. 1) (w (match7 md op)))\<rparr>)"
    by (rule fit_spline_unit) (simp_all add: match7_def grid7_def flat7_def)
  have v: "s_ref (match7 md op) = flat7" "serr_ref (match7 md op) = [4, 4, 4, 4, 4, 4, 4]"
    "map (\<lambda>_. 1) (w (match7 md op)) = flat7"
    by (simp_all add: match7_def grid7_def flat7_def)
  show ?thesis
    by (simp only: Match_create_model_def p b bindE_Inr v f [unfolded v])
qed

lemma Match_objective_state:
  assumes "Match_objective cm params self = Inr (v, self')"
  shows "cm params self = Inr self'"
  using assms
  by (auto simp: Match_objective_def bindE_eq_Inr Let_def split: if_splits)

lemma lmfit_minimize_invariant:
  assumes step: "\<And>p s v s'. P s \<Longrightarrow> fcn p s = Inr (v, s') \<Longrightarrow> P s'"
    and "P self"
    and "lmfit_minimize strategy fcn fuel hist self = Inr (out, self')"
  shows "P self'"
  using assms(2,3)
proof (induction fuel arbitrary: hist self)
  case 0
  then show ?case by simp
next
  case (Suc fuel)
  show ?case
  proof (cases "strategy hist")
    case (Finish q)
    with Suc.prems show ?thesis by simp
  next
    case (Abort e)
    with Suc.prems show ?thesis by simp
  next
    case (Evaluate p)
    show ?thesis
    proof (cases "fcn p self")
      case (Inl e)
      with Evaluate Suc.prems show ?thesis by simp
    next
      case (Inr r)
      obtain v s1 where r: "r = (v, s1)" by (cases r)
      from Inr r Evaluate Suc.prems(2)
      have run: "lmfit_minimize strategy fcn fuel (hist @ [(p, v)]) s1 = Inr (out, self')" by simp
      from step [OF Suc.prems(1)] Inr r have "P s1" by simp
      from Suc.IH [OF this run] show ?thesis .
    qed
  qed
qed

lemma Match_objective_keeps_opt:
  assumes "Match_objective (Match_create_model ext) p s = Inr (v, s')"
  shows "opt s' = opt s"
  using Match_create_model_keeps(1) [OF Match_objective_state [OF assms]] .

lemma Match_objective_value:
  assumes "Match_objective cm p s = Inr (v, s')"
  shows "\<exists>res. residuals s' = Inr res
          \<and> v = (if opt s' = ''lm'' then Array res
                 else if opt s' = ''nelder'' then Scalar (\<Sum>x\<leftarrow>res. x\<^sup>2) else NoneV)"
proof -
  from assms have cm: "cm p s = Inr s'" by (rule Match_objective_state)
  show ?thesis
  proof (cases "residuals s'")
    case (Inl e)
    with cm assms show ?thesis by (simp add: Match_objective_def)
  next
    case (Inr res)
    with cm assms show ?thesis
      by (simp add: Match_objective_def Let_def np_sum_def np_square_def split: if_splits)
  qed
qed

lemma fitted7_create_model:
  "Match_create_model unit_externals (vsini_params v) (match7 md op) = Inr (fitted7 md op)"
  "Match_create_model unit_externals (vsini_params v) (fitted7 md op) = Inr (fitted7 md op)"
proof -
  show a: "Match_create_model unit_externals (vsini_params v) (match7 md op) = Inr (fitted7 md op)"
    unfolding fitted7_def by (rule match7_create_model)
  show "Match_create_model unit_externals (vsini_params v) (fitted7 md op) = Inr (fitted7 md op)"
    using a by (rule Match_create_model_idem)
qed

lemma fitted7_residuals_default:
  "residuals (fitted7 ''default'' op) = Inr [10, 10, 10, 10, 10, 10, 10]"
  by (simp add: residuals_def fitted7_def match7_def flat7_def np_binop_def)

lemma fitted7_opt: "opt (fitted7 md op) = op"
  by (simp add: fitted7_def match7_def)

lemma match7_objective_default:
  "Match_objective (Match_create_model unit_externals) (vsini_params v) (match7 ''default'' op)
   = Inr (if op = ''lm'' then Array [10, 10, 10, 10, 10, 10, 10]
          else if op = ''nelder'' then Scalar 700 else NoneV, fitted7 ''default'' op)"
  "Match_objective (Match_create_model unit_externals) (vsini_params v) (fitted7 ''default'' op)
   = Inr (if op = ''lm'' then Array [10, 10, 10, 10, 10, 10, 10]
          else if op = ''nelder'' then Scalar 700 else NoneV, fitted7 ''default'' op)"
  by (simp_all add: Match_objective_def fitted7_create_model fitted7_residuals_default
      fitted7_opt np_sum_def np_square_def)

lemma unit_minimizer:
  "minimizer unit_externals method params [] = Evaluate params"
  "minimizer unit_externals method params [x] = Finish params"
  by (simp_all add: unit_externals_def)

lemma unit_minimize_match7:
  "lmfit_minimize (minimizer unit_externals method (vsini_params v))
     (Match_objective (Match_create_model unit_externals)) (Suc (Suc 0)) [] (match7 ''default'' op)
   = Inr (vsini_params v, fitted7 ''default'' op)"
  by (simp add: unit_minimizer match7_objective_default)

lemma match7_opt: "opt (match7 md op) = op"
  by (simp add: match7_def)

lemma match7_best_fit:
  assumes "Parameters_add (case pa of None \<Rightarrow> Map.empty | Some p \<Rightarrow> p) ''vsini'' 1 (Some 0) (Some 10) True
           = vsini_params 1"
  shows "Match_best_fit unit_externals (Suc (Suc 0)) pa (match7 ''default'' ''lm'')
         = Inr (Scalar 700, (fitted7 ''default'' ''lm'')\<lparr>best_chisq := Scalar 700,
                               best_params := vsini_params 1\<rparr>)"
    and "Match_best_fit unit_externals (Suc (Suc 0)) pa (match7 ''default'' ''nelder'')
         = Inr (Scalar 700, (fitted7 ''default'' ''nelder'')\<lparr>best_chisq := Scalar 700,
                               best_params := vsini_params 1\<rparr>)"
  unfolding Match_best_fit_def Let_def assms
  by (simp_all add: match7_opt unit_minimize_match7 match7_objective_default
      np_sum_sq_def np_sum_def np_square_def del: lmfit_minimize.simps)

lemma MatchLincomb_create_model_result:
  assumes "MatchLincomb_create_model ext params self = Inr self'"
  shows "\<exists>a b c. self' = self\<lparr>s_mod := Some a, serr_mod := Some b, spl := Some c\<rparr>"
  using assms
  by (auto simp: MatchLincomb_create_model_def Let_def bindE_eq_Inr dest: fit_spline_result)

lemma MatchLincomb_objective_parts:
  assumes "MatchLincomb_objective ext params self = Inr (v, self')"
  shows "\<exists>base sum_coeff.
           Match_objective (MatchLincomb_create_model ext) params self = Inr (base, self')
         \<and> sum_coeff_loop params 0 [0 ..< num_refs self'] = Inr sum_coeff
         \<and> py_iadd base ((sum_coeff - 1)\<^sup>2 / (2 * (1 / 1000)\<^sup>2)) = Inr v"
  using assms
  by (auto simp: MatchLincomb_objective_def Let_def bindE_eq_Inr)

lemma coeff_name_01: "coeff_name 0 = ''coeff_0''" "coeff_name (Suc 0) = ''coeff_1''"
  by (simp_all add: coeff_name_def string_of_nat.simps)

lemma upt_0_2: "[0 ..< 2] = [0, Suc 0]"
  by (simp add: upt_conv_Cons)

lemma coeff_params_value:
  "param_value (coeff_params c0 c1) ''coeff_0'' = Inr c0"
  "param_value (coeff_params c0 c1) ''coeff_1'' = Inr c1"
  by (simp_all add: coeff_params_def Parameters_add_def param_value_def)

lemma lincomb7_add_params:
  "add_lincomb_params (lincomb7 md op) Map.empty = coeff_params (1 / 2) (1 / 2)"
  by (simp add: add_lincomb_params_def lincomb7_def upt_0_2 coeff_name_01 coeff_params_def)

lemma lincomb7_fields:
  "w (lincomb7 md op) = grid7" "s_targ (lincomb7 md op) = [11, 11, 11, 11, 11, 11, 11]"
  "num_refs (lincomb7 md op) = 2" "mode (lincomb7 md op) = md" "opt (lincomb7 md op) = op"
  "s_refs (lincomb7 md op) = [(flat7, [4, 4, 4, 4, 4, 4, 4]), (flat7, [4, 4, 4, 4, 4, 4, 4])]"
  by (simp_all add: lincomb7_def)

lemma lincomb_loop_two:
  "lincomb_loop (coeff_params c0 c1)
     [(flat7, [4, 4, 4, 4, 4, 4, 4]), (flat7, [4, 4, 4, 4, 4, 4, 4])]
     (replicate (length grid7) 0, replicate (length grid7) 0) [0 ..< 2]
   = Inr ([c0 + c1, c0 + c1, c0 + c1, c0 + c1, c0 + c1, c0 + c1, c0 + c1],
          [4 * c0 + 4 * c1, 4 * c0 + 4 * c1, 4 * c0 + 4 * c1, 4 * c0 + 4 * c1,
           4 * c0 + 4 * c1, 4 * c0 + 4 * c1, 4 * c0 + 4 * c1])"
proof -
  have r: "replicate (length grid7) (0::real) = [0, 0, 0, 0, 0, 0, 0]"
    by (simp add: grid7_def)
  show ?thesis
    unfolding upt_0_2 r
    by (simp add: coeff_name_01 coeff_params_value np_inplace_def flat7_def)
qed

lemma lincomb_objective_two:
  fixes s :: MatchLincomb
  assumes "w s = grid7" and "s_targ s = [11, 11, 11, 11, 11, 11, 11]" and "num_refs s = 2"
    and "s_refs s = [(flat7, [4, 4, 4, 4, 4, 4, 4]), (flat7, [4, 4, 4, 4, 4, 4, 4])]"
    and "mode s = ''default''"
  shows "MatchLincomb_objective unit_externals (coeff_params c0 c1) s
   = (if opt s = ''lm'' then
        Inr (Array (map (\<lambda>x. x + (c0 + c1 - 1)\<^sup>2 * 500000)
                      [11 - (c0 + c1), 11 - (c0 + c1), 11 - (c0 + c1), 11 - (c0 + c1),
                       11 - (c0 + c1), 11 - (c0 + c1), 11 - (c0 + c1)]),
             s\<lparr>s_mod := Some [c0 + c1, c0 + c1, c0 + c1, c0 + c1, c0 + c1, c0 + c1, c0 + c1],
               serr_mod := Some [4 * c0 + 4 * c1, 4 * c0 + 4 * c1, 4 * c0 + 4 * c1,
                   4 * c0 + 4 * c1, 4 * c0 + 4 * c1, 4 * c0 + 4 * c1, 4 * c0 + 4 * c1],
               spl := Some flat7\<rparr>)
      else if opt s = ''nelder'' then
        Inr (Scalar (7 * (11 - (c0 + c1))\<^sup>2 + (c0 + c1 - 1)\<^sup>2 * 500000),
             s\<lparr>s_mod := Some [c0 + c1, c0 + c1, c0 + c1, c0 + c1, c0 + c1, c0 + c1, c0 + c1],
               serr_mod := Some [4 * c0 + 4 * c1, 4 * c0 + 4 * c1, 4 * c0 + 4 * c1,
                   4 * c0 + 4 * c1, 4 * c0 + 4 * c1, 4 * c0 + 4 * c1, 4 * c0 + 4 * c1],
               spl := Some flat7\<rparr>)
      else Inl TypeError)"
proof -
  let ?m = "[c0 + c1, c0 + c1, c0 + c1, c0 + c1, c0 + c1, c0 + c1, c0 + c1]"
  let ?e = "[4 * c0 + 4 * c1, 4 * c0 + 4 * c1, 4 * c0 + 4 * c1, 4 * c0 + 4 * c1,
           4 * c0 + 4 * c1, 4 * c0 + 4 * c1, 4 * c0 + 4 * c1]"
  let ?s = "s\<lparr>s_mod := Some ?m, serr_mod := Some ?e, spl := Some flat7\<rparr>"
  have f: "fit_spline unit_externals ?m ?e s
     = Inr (s\<lparr>s_mod := Some ?m, serr_mod := Some ?e, spl := Some (map (\<lambda>_. 1) (w s))\<rparr>)"
    by (rule fit_spline_unit) (simp_all add: assms grid7_def)
  have v: "map (\<lambda>_. 1) (w s) = flat7"
    by (simp add: assms grid7_def flat7_def)
  have cm: "MatchLincomb_create_model unit_externals (coeff_params c0 c1) s = Inr ?s"
    unfolding MatchLincomb_create_model_def Let_def assms lincomb_loop_two bindE_Inr
    using f v by simp
  have res: "residuals ?s = Inr [11 - (c0 + c1), 11 - (c0 + c1), 11 - (c0 + c1), 11 - (c0 + c1),
                       11 - (c0 + c1), 11 - (c0 + c1), 11 - (c0 + c1)]"
    by (simp add: residuals_def assms np_binop_def)
  have base: "Match_objective (MatchLincomb_create_model unit_externals) (coeff_params c0 c1) s
      = Inr (if opt s = ''lm'' then Array [11 - (c0 + c1), 11 - (c0 + c1), 11 - (c0 + c1),
                       11 - (c0 + c1), 11 - (c0 + c1), 11 - (c0 + c1), 11 - (c0 + c1)]
             else if opt s = ''nelder'' then Scalar (7 * (11 - (c0 + c1))\<^sup>2) else NoneV, ?s)"
    by (simp add: Match_objective_def cm res np_sum_def np_square_def)
  have sc: "sum_coeff_loop (coeff_params c0 c1) 0 [0 ..< 2] = Inr (c0 + c1)"
    unfolding upt_0_2 by (simp add: coeff_name_01 coeff_params_value)
  show ?thesis
    unfolding MatchLincomb_objective_def base bindE_Inr
    by (simp add: assms sc py_iadd_def Let_def power2_eq_square)
qed

lemma lincomb7_minimize:
  "lmfit_minimize (minimizer unit_externals method (coeff_params (1 / 2) (1 / 2)))
     (MatchLincomb_objective unit_externals) (Suc (Suc 0)) [] (lincomb7 ''default'' ''lm'')
   = Inr (coeff_params (1 / 2) (1 / 2), lincomb_fitted7 ''default'' ''lm'' 1)"
  by (simp add: unit_minimizer lincomb_objective_two lincomb7_fields lincomb_fitted7_def)

lemma lincomb7_best_fit:
  "MatchLincomb_best_fit unit_externals (Suc (Suc 0)) (lincomb7 ''default'' ''lm'')
   = Inr (Array [10, 10, 10, 10, 10, 10, 10],
          (lincomb_fitted7 ''default'' ''lm'' 1)\<lparr>best_params := coeff_params (1 / 2) (1 / 2),
             best_chisq := Array [10, 10, 10, 10, 10, 10, 10]\<rparr>)"
  unfolding MatchLincomb_best_fit_def Let_def lincomb7_add_params lincomb7_minimize bindE_Inr
  by (simp add: lincomb_objective_two lincomb7_fields lincomb_fitted7_def)

lemma sum_coeff_loop_value:
  assumes "sum_coeff_loop params acc idxs = Inr tot"
  shows "tot = acc + (\<Sum>i\<leftarrow>idxs. pvalue (the (params (coeff_name i))))"
  using assms
proof (induction idxs arbitrary: acc)
  case Nil
  then show ?case by simp
next
  case (Cons i idxs)
  from Cons.prems obtain c where c: "param_value params (coeff_name i) = Inr c"
    and rest: "sum_coeff_loop params (acc + c) idxs = Inr tot"
    by (auto simp: bindE_eq_Inr)
  from c have "c = pvalue (the (params (coeff_name i)))"
    by (auto simp: param_value_def split: option.splits)
  with Cons.IH [OF rest] show ?case by simp
qed

lemma MatchLincomb_objective_keeps:
  assumes "MatchLincomb_objective ext p s = Inr (v, s')"
  shows "opt s' = opt s \<and> num_refs s' = num_refs s"
proof -
  from MatchLincomb_objective_parts [OF assms] obtain base where
    "Match_objective (MatchLincomb_create_model ext) p s = Inr (base, s')" by blast
  from MatchLincomb_create_model_result [OF Match_objective_state [OF this]]
  show ?thesis by auto
qed

lemma MatchLincomb_objective_explicit:
  assumes "MatchLincomb_objective ext p s = Inr (v, s')"
  shows "MatchLincomb_create_model ext p s = Inr s'
       \<and> (\<exists>res. residuals s' = Inr res
            \<and> ((opt s = ''lm''
                  \<and> v = Array (map (\<lambda>x. x + ((\<Sum>i\<leftarrow>[0 ..< num_refs s].
                              pvalue (the (p (coeff_name i)))) - 1)\<^sup>2 / (2 * (1 / 1000)\<^sup>2)) res))
               \<or> (opt s = ''nelder''
                  \<and> v = Scalar ((\<Sum>x\<leftarrow>res. x\<^sup>2) + ((\<Sum>i\<leftarrow>[0 ..< num_refs s].
                              pvalue (the (p (coeff_name i)))) - 1)\<^sup>2 / (2 * (1 / 1000)\<^sup>2)))))"
proof -
  from MatchLincomb_objective_parts [OF assms] obtain base sum_coeff where
    base: "Match_objective (MatchLincomb_create_model ext) p s = Inr (base, s')"
    and sc: "sum_coeff_loop p 0 [0 ..< num_refs s'] = Inr sum_coeff"
    and add: "py_iadd base ((sum_coeff - 1)\<^sup>2 / (2 * (1 / 1000)\<^sup>2)) = Inr v"
    by blast
  note k = MatchLincomb_objective_keeps [OF assms]
  from sum_coeff_loop_value [OF sc] k
  have s: "sum_coeff = (\<Sum>i\<leftarrow>[0 ..< num_refs s]. pvalue (the (p (coeff_name i))))" by simp
  from Match_objective_value [OF base] k obtain res where
    res: "residuals s' = Inr res"
    and b: "base = (if opt s = ''lm'' then Array res
                 else if opt s = ''nelder'' then Scalar (\<Sum>x\<leftarrow>res. x\<^sup>2) else NoneV)"
    by auto
  have cm: "MatchLincomb_create_model ext p s = Inr s'"
    using base by (rule Match_objective_state)
  show ?thesis
  proof (cases "opt s = ''lm''")
    case True
    with b add s have "v = Array (map (\<lambda>x. x + ((\<Sum>i\<leftarrow>[0 ..< num_refs s].
                              pvalue (the (p (coeff_name i)))) - 1)\<^sup>2 / (2 * (1 / 1000)\<^sup>2)) res)"
      by (simp add: py_iadd_def)
    with True cm res show ?thesis by blast
  next
    case False
    show ?thesis
    proof (cases "opt s = ''nelder''")
      case True
      with False b add s have "v = Scalar ((\<Sum>x\<leftarrow>res. x\<^sup>2) + ((\<Sum>i\<leftarrow>[0 ..< num_refs s].
                              pvalue (the (p (coeff_name i)))) - 1)\<^sup>2 / (2 * (1 / 1000)\<^sup>2))"
        by (simp add: py_iadd_def)
      with True cm res show ?thesis by blast
    next
      case n: False
      with False b add show ?thesis by (simp add: py_iadd_def)
    qed
  qed
qed

lemma nelder_externals_objective:
  "MatchLincomb_objective nelder_externals = MatchLincomb_objective unit_externals"
  by (simp add: fun_eq_iff nelder_externals_def MatchLincomb_objective_def Match_objective_def
      MatchLincomb_create_model_def fit_spline_def)

lemma nelder_minimizer:
  "minimizer nelder_externals ''nelder'' params [] = Evaluate params"
  "minimizer nelder_externals ''nelder'' params [x] = Finish (coeff_params 1 1)"
  by (simp_all add: nelder_externals_def)

lemma lincomb7_nelder_minimize:
  "lmfit_minimize (minimizer nelder_externals ''nelder'' (add_lincomb_params (lincomb7 ''default'' op) Map.empty))
     (MatchLincomb_objective nelder_externals) (Suc (Suc 0)) [] (lincomb7 ''default'' op)
   = (if op = ''lm'' \<or> op = ''nelder''
      then Inr (coeff_params 1 1, lincomb_fitted7 ''default'' op 1) else Inl TypeError)"
  unfolding lincomb7_add_params nelder_externals_objective
  by (simp add: nelder_minimizer lincomb_objective_two lincomb7_fields lincomb_fitted7_def)

lemma lincomb_fitted7_objective:
  "MatchLincomb_objective nelder_externals (coeff_params 1 1)
     ((lincomb_fitted7 ''default'' ''lm'' 1)\<lparr>best_params := coeff_params 1 1\<rparr>)
   = Inr (Array [500009, 500009, 500009, 500009, 500009, 500009, 500009],
          (lincomb_fitted7 ''default'' ''lm'' 2)\<lparr>best_params := coeff_params 1 1\<rparr>)"
  "MatchLincomb_objective nelder_externals (coeff_params 1 1)
     ((lincomb_fitted7 ''default'' ''nelder'' 1)\<lparr>best_params := coeff_params 1 1\<rparr>)
   = Inr (Scalar 500567,
          (lincomb_fitted7 ''default'' ''nelder'' 2)\<lparr>best_params := coeff_params 1 1\<rparr>)"
  unfolding nelder_externals_objective
  by (simp_all add: lincomb_objective_two lincomb7_fields lincomb_fitted7_def)

lemma unit_objective_any_vsini:
  assumes "params ''vsini'' = Some q"
  shows "Match_objective (Match_create_model unit_externals) params s
         = Match_objective (Match_create_model unit_externals) (vsini_params 1) s"
proof -
  have "Match_create_model unit_externals params s
        = Match_create_model unit_externals (vsini_params 1) s"
    using assms
    by (simp add: Match_create_model_def param_value_def vsini_params_def Parameters_add_def
        broaden_def unit_externals_def)
  then show ?thesis by (simp add: Match_objective_def)
qed

lemma match7_minimize_any_vsini:
  assumes "params ''vsini'' = Some q"
  shows "lmfit_minimize (minimizer unit_externals method params)
           (Match_objective (Match_create_model unit_externals)) (Suc (Suc 0)) []
           (match7 ''default'' op)
         = Inr (params, fitted7 ''default'' op)"
  by (simp add: unit_minimizer unit_objective_any_vsini [where params = params, OF assms]
      match7_objective_default)

section \<open>The claims\<close>

text \<open>
  C1. \<^verbatim>\<open>Match.objective\<close> calls \<^verbatim>\<open>create_model\<close> and, the model and the target being
  of one length, returns the residual sequence of the specification when the optimizer
  kind is \<^verbatim>\<open>lm\<close>, and the sum of its squares when the kind is \<^verbatim>\<open>nelder\<close>; the object it
  leaves behind is the one \<^verbatim>\<open>create_model\<close> produced.
\<close>

theorem objective_returns:
  assumes "Match_create_model ext params self = Inr self'"
    and "s_mod self' = Some smod" and "serr_mod self' = Some serrmod"
    and "length smod = length (s_targ self)"
    and "mode self = ''normalized'' \<longrightarrow>
           length (serr_targ self) = length (s_targ self) \<and> length serrmod = length (s_targ self)"
  shows "(opt self = ''lm'' \<longrightarrow>
            Match_objective (Match_create_model ext) params self
            = Inr (Array (residual_spec (mode self = ''normalized'') (s_targ self) (serr_targ self)
                            smod serrmod), self'))
       \<and> (opt self = ''nelder'' \<longrightarrow>
            Match_objective (Match_create_model ext) params self
            = Inr (Scalar (\<Sum>x\<leftarrow>residual_spec (mode self = ''normalized'') (s_targ self)
                               (serr_targ self) smod serrmod. x\<^sup>2), self'))"
proof -
  note k = Match_create_model_keeps [OF assms(1)]
  have "residuals self'
        = Inr (residual_spec (mode self' = ''normalized'') (s_targ self') (serr_targ self') smod serrmod)"
    using assms(2-5) by (intro residuals_elementwise) (simp_all add: k)
  then show ?thesis
    using assms(1) by (simp add: Match_objective_def k np_sum_def np_square_def)
qed

text \<open>
  C1 on the seven-sample instance: target 11 and model 1 with uncertainties 3 and 4 give
  the normalized residual 2, and the unnormalized chi-square 700.
\<close>

theorem objective_returns_witness:
  "Match_objective (Match_create_model unit_externals) (vsini_params 1) (match7 ''normalized'' ''lm'')
   = Inr (Array [2, 2, 2, 2, 2, 2, 2],
          (match7 ''normalized'' ''lm'')\<lparr>s_mod := Some flat7, serr_mod := Some [4, 4, 4, 4, 4, 4, 4],
                          spl := Some flat7\<rparr>)
   \<and> Match_objective (Match_create_model unit_externals) (vsini_params 1) (match7 ''default'' ''nelder'')
   = Inr (Scalar 700,
          (match7 ''default'' ''nelder'')\<lparr>s_mod := Some flat7, serr_mod := Some [4, 4, 4, 4, 4, 4, 4],
                          spl := Some flat7\<rparr>)"
proof -
  have up: "[0 ..< 7] = [0, 1, 2, 3, 4, 5, 6::nat]" by (simp add: upt_conv_Cons)
  have len: "length flat7 = 7" by (simp add: flat7_def)
  have r1: "residual_spec True [11, 11, 11, 11, 11, 11, 11] [3, 3, 3, 3, 3, 3, 3] flat7 [4, 4, 4, 4, 4, 4, 4]
      = [2, 2, 2, 2, 2, 2, 2]"
    by (simp add: residual_spec_def up flat7_def sqrt25)
  have r2: "residual_spec False [11, 11, 11, 11, 11, 11, 11] [3, 3, 3, 3, 3, 3, 3] flat7 [4, 4, 4, 4, 4, 4, 4]
      = [10, 10, 10, 10, 10, 10, 10]"
    by (simp add: residual_spec_def up flat7_def)
  have a: "Match_objective (Match_create_model unit_externals) (vsini_params 1) (match7 ''normalized'' ''lm'')
   = Inr (Array [2, 2, 2, 2, 2, 2, 2],
          (match7 ''normalized'' ''lm'')\<lparr>s_mod := Some flat7, serr_mod := Some [4, 4, 4, 4, 4, 4, 4],
                          spl := Some flat7\<rparr>)"
    using objective_returns [OF match7_create_model [of 1 "''normalized''" "''lm''"],
        of flat7 "[4, 4, 4, 4, 4, 4, 4]"]
    by (simp add: match7_def r1 len)
  have b: "Match_objective (Match_create_model unit_externals) (vsini_params 1) (match7 ''default'' ''nelder'')
   = Inr (Scalar 700,
          (match7 ''default'' ''nelder'')\<lparr>s_mod := Some flat7, serr_mod := Some [4, 4, 4, 4, 4, 4, 4],
                          spl := Some flat7\<rparr>)"
    using objective_returns [OF match7_create_model [of 1 "''default''" "''nelder''"],
        of flat7 "[4, 4, 4, 4, 4, 4, 4]"]
    by (simp add: match7_def r2 len)
  from a b show ?thesis by simp
qed

text \<open>
  C2 fails on the code. On a \<^verbatim>\<open>MatchLincomb\<close> whose optimizer kind is \<^verbatim>\<open>lm\<close> (the
  default of the constructor) the inherited objective returns the residual array, and the
  prior is added to each of its elements: with both coefficients equal to 1 the model is 2,
  every residual is 9, the prior is 500000, and \<^verbatim>\<open>objective\<close> returns an array of seven
  times 500009 where the claim has the scalar chi-square plus the prior.
\<close>

theorem MatchLincomb_objective_lm_array:
  "MatchLincomb_objective unit_externals (coeff_params 1 1) (lincomb7 ''default'' ''lm'')
   = Inr (Array [500009, 500009, 500009, 500009, 500009, 500009, 500009],
          lincomb_fitted7 ''default'' ''lm'' 2)"
  by (simp add: lincomb_objective_two lincomb7_fields lincomb_fitted7_def)

text \<open>
  C3. \<^verbatim>\<open>MatchLincomb.best_fit\<close> never looks at the optimizer kind of the object: whatever
  it is, the result is that of running the optimizer with the method \<^verbatim>\<open>nelder\<close> from the
  parameters of \<^verbatim>\<open>add_lincomb_params\<close>, and then evaluating \<^verbatim>\<open>MatchLincomb.objective\<close>
  once more at the parameters the optimizer finished with. When it returns, those
  parameters are stored as \<^verbatim>\<open>best_params\<close>, and the value stored as \<^verbatim>\<open>best_chisq\<close> and
  returned is that objective value with the prior
  \<open>(\<Sum> coeff - 1)\<^sup>2 / (2 * width\<^sup>2)\<close>, \<open>width = 1 / 1000\<close>, in it: the sum of the squared
  residuals plus the prior when the kind is \<^verbatim>\<open>nelder\<close>, and the residuals with the prior
  added to each when the kind is \<^verbatim>\<open>lm\<close>. No sum of squares is computed afresh.
\<close>

theorem MatchLincomb_best_fit_nelder:
  "MatchLincomb_best_fit ext fuel self
   = (case lmfit_minimize (minimizer ext ''nelder'' (add_lincomb_params self Map.empty))
             (MatchLincomb_objective ext) fuel [] self of
        Inl e \<Rightarrow> Inl e
      | Inr (out, s1) \<Rightarrow>
          (case MatchLincomb_objective ext out (s1\<lparr>best_params := out\<rparr>) of
             Inl e \<Rightarrow> Inl e
           | Inr (v, s2) \<Rightarrow> Inr (v, s2\<lparr>best_chisq := v\<rparr>)))
   \<and> (\<forall>chisq self'. MatchLincomb_best_fit ext fuel self = Inr (chisq, self') \<longrightarrow>
         (\<exists>out s1 s2 res.
             lmfit_minimize (minimizer ext ''nelder'' (add_lincomb_params self Map.empty))
               (MatchLincomb_objective ext) fuel [] self = Inr (out, s1)
           \<and> MatchLincomb_create_model ext out (s1\<lparr>best_params := out\<rparr>) = Inr s2
           \<and> residuals s2 = Inr res
           \<and> self' = s2\<lparr>best_chisq := chisq\<rparr>
           \<and> best_params self' = out
           \<and> best_chisq self' = chisq
           \<and> ((opt self = ''lm''
                 \<and> chisq = Array (map (\<lambda>x. x + ((\<Sum>i\<leftarrow>[0 ..< num_refs self].
                              pvalue (the (out (coeff_name i)))) - 1)\<^sup>2 / (2 * (1 / 1000)\<^sup>2)) res))
              \<or> (opt self = ''nelder''
                 \<and> chisq = Scalar ((\<Sum>x\<leftarrow>res. x\<^sup>2) + ((\<Sum>i\<leftarrow>[0 ..< num_refs self].
                              pvalue (the (out (coeff_name i)))) - 1)\<^sup>2 / (2 * (1 / 1000)\<^sup>2))))))"
proof -
  let ?run = "lmfit_minimize (minimizer ext ''nelder'' (add_lincomb_params self Map.empty))
             (MatchLincomb_objective ext) fuel [] self"
  have a: "MatchLincomb_best_fit ext fuel self
   = (case ?run of
        Inl e \<Rightarrow> Inl e
      | Inr (out, s1) \<Rightarrow>
          (case MatchLincomb_objective ext out (s1\<lparr>best_params := out\<rparr>) of
             Inl e \<Rightarrow> Inl e
           | Inr (v, s2) \<Rightarrow> Inr (v, s2\<lparr>best_chisq := v\<rparr>)))"
    by (simp add: MatchLincomb_best_fit_def Let_def bindE_def split: sum.splits prod.splits)
  have b: "\<exists>out s1 s2 res.
             ?run = Inr (out, s1)
           \<and> MatchLincomb_create_model ext out (s1\<lparr>best_params := out\<rparr>) = Inr s2
           \<and> residuals s2 = Inr res
           \<and> self' = s2\<lparr>best_chisq := chisq\<rparr>
           \<and> best_params self' = out
           \<and> best_chisq self' = chisq
           \<and> ((opt self = ''lm''
                 \<and> chisq = Array (map (\<lambda>x. x + ((\<Sum>i\<leftarrow>[0 ..< num_refs self].
                              pvalue (the (out (coeff_name i)))) - 1)\<^sup>2 / (2 * (1 / 1000)\<^sup>2)) res))
              \<or> (opt self = ''nelder''
                 \<and> chisq = Scalar ((\<Sum>x\<leftarrow>res. x\<^sup>2) + ((\<Sum>i\<leftarrow>[0 ..< num_refs self].
                              pvalue (the (out (coeff_name i)))) - 1)\<^sup>2 / (2 * (1 / 1000)\<^sup>2))))"
    if bf: "MatchLincomb_best_fit ext fuel self = Inr (chisq, self')" for chisq self'
  proof -
    from bf obtain out s1 s2 where
      run: "?run = Inr (out, s1)"
      and ob: "MatchLincomb_objective ext out (s1\<lparr>best_params := out\<rparr>) = Inr (chisq, s2)"
      and fin: "self' = s2\<lparr>best_chisq := chisq\<rparr>"
      by (auto simp: MatchLincomb_best_fit_def Let_def bindE_eq_Inr)
    have inv: "opt s1 = opt self \<and> num_refs s1 = num_refs self"
      using _ _ run
    proof (rule lmfit_minimize_invariant
        [where P = "\<lambda>s. opt s = opt self \<and> num_refs s = num_refs self"])
      fix p s v s'
      assume "opt s = opt self \<and> num_refs s = num_refs self"
        and "MatchLincomb_objective ext p s = Inr (v, s')"
      with MatchLincomb_objective_keeps [of ext p s v s']
      show "opt s' = opt self \<and> num_refs s' = num_refs self" by simp
    qed simp
    from MatchLincomb_objective_explicit [OF ob] inv obtain res where
      cm: "MatchLincomb_create_model ext out (s1\<lparr>best_params := out\<rparr>) = Inr s2"
      and res: "residuals s2 = Inr res"
      and val: "(opt self = ''lm''
                 \<and> chisq = Array (map (\<lambda>x. x + ((\<Sum>i\<leftarrow>[0 ..< num_refs self].
                              pvalue (the (out (coeff_name i)))) - 1)\<^sup>2 / (2 * (1 / 1000)\<^sup>2)) res))
              \<or> (opt self = ''nelder''
                 \<and> chisq = Scalar ((\<Sum>x\<leftarrow>res. x\<^sup>2) + ((\<Sum>i\<leftarrow>[0 ..< num_refs self].
                              pvalue (the (out (coeff_name i)))) - 1)\<^sup>2 / (2 * (1 / 1000)\<^sup>2)))"
      by auto
    from MatchLincomb_create_model_result [OF cm] have bp: "best_params s2 = out" by auto
    from run cm res fin bp val show ?thesis
      by (intro exI [of _ out] exI [of _ s1] exI [of _ s2] exI [of _ res]) simp
  qed
  from a b show ?thesis by blast
qed

text \<open>
  C3 on the seven-sample instance with two references, with an optimizer that raises
  unless its method is \<^verbatim>\<open>nelder\<close> and that finishes with both coefficients equal to 1:
  the residuals are 9 and the prior is 500000; an object of kind \<^verbatim>\<open>lm\<close> stores seven
  times 500009, an object of kind \<^verbatim>\<open>nelder\<close> stores 7 * 81 + 500000.
\<close>

theorem MatchLincomb_best_fit_nelder_witness:
  "MatchLincomb_best_fit nelder_externals (Suc (Suc 0)) (lincomb7 ''default'' ''lm'')
   = Inr (Array [500009, 500009, 500009, 500009, 500009, 500009, 500009],
          (lincomb_fitted7 ''default'' ''lm'' 2)\<lparr>best_params := coeff_params 1 1,
             best_chisq := Array [500009, 500009, 500009, 500009, 500009, 500009, 500009]\<rparr>)
   \<and> MatchLincomb_best_fit nelder_externals (Suc (Suc 0)) (lincomb7 ''default'' ''nelder'')
   = Inr (Scalar 500567,
          (lincomb_fitted7 ''default'' ''nelder'' 2)\<lparr>best_params := coeff_params 1 1,
             best_chisq := Scalar 500567\<rparr>)
   \<and> (\<exists>out s1 s2 res.
         lmfit_minimize (minimizer nelder_externals ''nelder''
              (add_lincomb_params (lincomb7 ''default'' ''lm'') Map.empty))
           (MatchLincomb_objective nelder_externals) (Suc (Suc 0)) [] (lincomb7 ''default'' ''lm'')
         = Inr (out, s1)
       \<and> MatchLincomb_create_model nelder_externals out (s1\<lparr>best_params := out\<rparr>) = Inr s2
       \<and> residuals s2 = Inr res
       \<and> Array [500009, 500009, 500009, 500009, 500009, 500009, 500009]
         = Array (map (\<lambda>x. x + ((\<Sum>i\<leftarrow>[0 ..< num_refs (lincomb7 ''default'' ''lm'')].
                     pvalue (the (out (coeff_name i)))) - 1)\<^sup>2 / (2 * (1 / 1000)\<^sup>2)) res))"
proof -
  have lm: "MatchLincomb_best_fit nelder_externals (Suc (Suc 0)) (lincomb7 ''default'' ''lm'')
   = Inr (Array [500009, 500009, 500009, 500009, 500009, 500009, 500009],
          (lincomb_fitted7 ''default'' ''lm'' 2)\<lparr>best_params := coeff_params 1 1,
             best_chisq := Array [500009, 500009, 500009, 500009, 500009, 500009, 500009]\<rparr>)"
    unfolding MatchLincomb_best_fit_nelder [THEN conjunct1] lincomb7_nelder_minimize
    by (simp add: lincomb_fitted7_objective)
  have ne: "MatchLincomb_best_fit nelder_externals (Suc (Suc 0)) (lincomb7 ''default'' ''nelder'')
   = Inr (Scalar 500567,
          (lincomb_fitted7 ''default'' ''nelder'' 2)\<lparr>best_params := coeff_params 1 1,
             best_chisq := Scalar 500567\<rparr>)"
    unfolding MatchLincomb_best_fit_nelder [THEN conjunct1] lincomb7_nelder_minimize
    by (simp add: lincomb_fitted7_objective)
  have o: "opt (lincomb7 ''default'' ''lm'') \<noteq> ''nelder''"
    by (simp add: lincomb7_fields)
  from MatchLincomb_best_fit_nelder [THEN conjunct2, rule_format, OF lm]
  obtain out s1 s2 res where
    run: "lmfit_minimize (minimizer nelder_externals ''nelder''
              (add_lincomb_params (lincomb7 ''default'' ''lm'') Map.empty))
           (MatchLincomb_objective nelder_externals) (Suc (Suc 0)) [] (lincomb7 ''default'' ''lm'')
         = Inr (out, s1)"
    and cm: "MatchLincomb_create_model nelder_externals out (s1\<lparr>best_params := out\<rparr>) = Inr s2"
    and res: "residuals s2 = Inr res"
    and val: "(opt (lincomb7 ''default'' ''lm'') = ''lm''
         \<and> Array [500009, 500009, 500009, 500009, 500009, 500009, 500009]
           = Array (map (\<lambda>x. x + ((\<Sum>i\<leftarrow>[0 ..< num_refs (lincomb7 ''default'' ''lm'')].
                     pvalue (the (out (coeff_name i)))) - 1)\<^sup>2 / (2 * (1 / 1000)\<^sup>2)) res))
       \<or> (opt (lincomb7 ''default'' ''lm'') = ''nelder''
         \<and> Array [500009, 500009, 500009, 500009, 500009, 500009, 500009]
           = Scalar ((\<Sum>x\<leftarrow>res. x\<^sup>2) + ((\<Sum>i\<leftarrow>[0 ..< num_refs (lincomb7 ''default'' ''lm'')].
                     pvalue (the (out (coeff_name i)))) - 1)\<^sup>2 / (2 * (1 / 1000)\<^sup>2)))"
    by (elim exE conjE) (rule that, assumption+)
  from val o have v: "Array [500009, 500009, 500009, 500009, 500009, 500009, 500009]
           = Array (map (\<lambda>x. x + ((\<Sum>i\<leftarrow>[0 ..< num_refs (lincomb7 ''default'' ''lm'')].
                     pvalue (the (out (coeff_name i)))) - 1)\<^sup>2 / (2 * (1 / 1000)\<^sup>2)) res)"
    by (elim disjE conjE) simp_all
  have ex: "\<exists>out s1 s2 res.
         lmfit_minimize (minimizer nelder_externals ''nelder''
              (add_lincomb_params (lincomb7 ''default'' ''lm'') Map.empty))
           (MatchLincomb_objective nelder_externals) (Suc (Suc 0)) [] (lincomb7 ''default'' ''lm'')
         = Inr (out, s1)
       \<and> MatchLincomb_create_model nelder_externals out (s1\<lparr>best_params := out\<rparr>) = Inr s2
       \<and> residuals s2 = Inr res
       \<and> Array [500009, 500009, 500009, 500009, 500009, 500009, 500009]
         = Array (map (\<lambda>x. x + ((\<Sum>i\<leftarrow>[0 ..< num_refs (lincomb7 ''default'' ''lm'')].
                     pvalue (the (out (coeff_name i)))) - 1)\<^sup>2 / (2 * (1 / 1000)\<^sup>2)) res)"
    using run cm res v
    by (intro exI [of _ out] exI [of _ s1] exI [of _ s2] exI [of _ res] conjI)
  from lm ne ex show ?thesis by (intro conjI)
qed

text \<open>
  C4. When \<^verbatim>\<open>Match.best_fit\<close> returns, the optimizer kind was \<^verbatim>\<open>lm\<close> or
  \<^verbatim>\<open>nelder\<close>; the parameters the optimizer finished with are stored as
  \<^verbatim>\<open>best_params\<close>; the stored \<^verbatim>\<open>best_chisq\<close> is the value returned; and that value
  is the sum of the squared residuals of the model built again from those parameters, not
  a number reported by the optimizer.
\<close>

theorem Match_best_fit_chisq:
  assumes "Match_best_fit ext fuel params_arg self = Inr (chisq, self')"
  shows "(opt self = ''lm'' \<or> opt self = ''nelder'')
       \<and> best_chisq self' = chisq
       \<and> (\<exists>out s1 m res.
             lmfit_minimize
               (minimizer ext (if opt self = ''lm'' then ''leastsq'' else ''nelder'')
                  (Parameters_add (case params_arg of None \<Rightarrow> Map.empty | Some p \<Rightarrow> p)
                     ''vsini'' 1 (Some 0) (Some 10) True))
               (Match_objective (Match_create_model ext)) fuel [] self = Inr (out, s1)
           \<and> best_params self' = out
           \<and> Match_create_model ext out s1 = Inr m
           \<and> residuals m = Inr res
           \<and> chisq = Scalar (\<Sum>x\<leftarrow>res. x\<^sup>2))"
proof -
  let ?params = "Parameters_add (case params_arg of None \<Rightarrow> Map.empty | Some p \<Rightarrow> p)
                     ''vsini'' 1 (Some 0) (Some 10) True"
  let ?obj = "Match_objective (Match_create_model ext)"
  have kind: "opt self = ''lm'' \<or> opt self = ''nelder''"
    using assms by (auto simp: Match_best_fit_def Let_def split: if_splits)
  then show ?thesis
  proof
    assume lm: "opt self = ''lm''"
    with assms obtain out s1 v s2 c where
      run: "lmfit_minimize (minimizer ext ''leastsq'' ?params) ?obj fuel [] self = Inr (out, s1)"
      and ob: "?obj out s1 = Inr (v, s2)"
      and sq: "np_sum_sq v = Inr c"
      and fin: "chisq = c" "self' = s2\<lparr>best_chisq := c, best_params := out\<rparr>"
      by (auto simp: Match_best_fit_def Let_def bindE_eq_Inr)
    have "opt s1 = opt self"
      using _ _ run
      by (rule lmfit_minimize_invariant [where P = "\<lambda>s. opt s = opt self"])
        (simp_all add: Match_objective_keeps_opt)
    with Match_objective_keeps_opt [OF ob] lm have o2: "opt s2 = ''lm''" by simp
    from Match_objective_value [OF ob] o2 obtain res where
      res: "residuals s2 = Inr res" and v: "v = Array res" by auto
    from sq v have "c = Scalar (\<Sum>x\<leftarrow>res. x\<^sup>2)"
      by (simp add: np_sum_sq_def np_sum_def np_square_def)
    with lm run fin res Match_objective_state [OF ob] show ?thesis
      by (intro conjI exI [of _ out] exI [of _ s1] exI [of _ s2] exI [of _ res]) simp_all
  next
    assume ne: "opt self = ''nelder''"
    then have nlm: "opt self \<noteq> ''lm''" by simp
    with ne assms obtain out s1 v s2 where
      run: "lmfit_minimize (minimizer ext ''nelder'' ?params) ?obj fuel [] self = Inr (out, s1)"
      and ob: "?obj out s1 = Inr (v, s2)"
      and fin: "chisq = v" "self' = s2\<lparr>best_chisq := v, best_params := out\<rparr>"
      by (auto simp: Match_best_fit_def Let_def bindE_eq_Inr)
    have "opt s1 = opt self"
      using _ _ run
      by (rule lmfit_minimize_invariant [where P = "\<lambda>s. opt s = opt self"])
        (simp_all add: Match_objective_keeps_opt)
    with Match_objective_keeps_opt [OF ob] ne have o2: "opt s2 = ''nelder''" by simp
    from Match_objective_value [OF ob] o2 obtain res where
      res: "residuals s2 = Inr res" and v: "v = Scalar (\<Sum>x\<leftarrow>res. x\<^sup>2)" by auto
    with nlm ne run fin Match_objective_state [OF ob] show ?thesis
      by (intro conjI exI [of _ out] exI [of _ s1] exI [of _ s2] exI [of _ res]) simp_all
  qed
qed

text \<open>
  C4 on the seven-sample instance with the kind \<^verbatim>\<open>lm\<close>: the chi-square is 700.
\<close>

theorem Match_best_fit_chisq_witness:
  "Match_best_fit unit_externals (Suc (Suc 0)) None (match7 ''default'' ''lm'')
   = Inr (Scalar 700, (fitted7 ''default'' ''lm'')\<lparr>best_chisq := Scalar 700,
                         best_params := vsini_params 1\<rparr>)
   \<and> best_chisq ((fitted7 ''default'' ''lm'')\<lparr>best_chisq := Scalar 700,
                         best_params := vsini_params 1\<rparr>) = Scalar 700
   \<and> (\<exists>out s1 m res.
         lmfit_minimize (minimizer unit_externals ''leastsq'' (vsini_params 1))
           (Match_objective (Match_create_model unit_externals)) (Suc (Suc 0)) []
           (match7 ''default'' ''lm'') = Inr (out, s1)
       \<and> out = vsini_params 1
       \<and> Match_create_model unit_externals out s1 = Inr m
       \<and> residuals m = Inr res
       \<and> Scalar 700 = Scalar (\<Sum>x\<leftarrow>res. x\<^sup>2))"
proof -
  have p: "Parameters_add (case None of None \<Rightarrow> Map.empty | Some p \<Rightarrow> p) ''vsini'' 1 (Some 0) (Some 10) True
           = vsini_params 1"
    by (simp add: vsini_params_def)
  have p': "Parameters_add Map.empty ''vsini'' 1 (Some 0) (Some 10) True = vsini_params 1"
    by (simp add: vsini_params_def)
  note run = match7_best_fit(1) [OF p]
  from Match_best_fit_chisq [OF run] run show ?thesis
    by (simp add: p' match7_opt del: lmfit_minimize.simps)
qed

text \<open>
  C5 as stated fails at \<open>n = 6\<close>: the interval is 1, the fifth knot has index
  \<open>5 = n - 1\<close> and is the last sample of the grid, not an interior one.
\<close>

theorem knot_at_endpoint_counterexample:
  "add_spline_knots [10, 11, 12, 13, 14, 15] = Inr [11, 12, 13, 14, 15]
   \<and> length [10, 11, 12, 13, 14, 15 :: real] div 6 * 5 = length [10, 11, 12, 13, 14, 15 :: real] - 1
   \<and> knot_x (projr (Match_init [10, 11, 12, 13, 14, 15] ([1], [1]) ([1], [1]) ''default'' ''lm'')) ! 4
     = last [10, 11, 12, 13, 14, 15]"
proof -
  have up: "[Suc 0 ..< 6] = [1, 2, 3, 4, 5]" by (simp add: upt_conv_Cons)
  have k: "add_spline_knots [10, 11, 12, 13, 14, 15] = Inr [11, 12, 13, 14, 15]"
    by (simp add: add_spline_knots_nonempty up)
  show ?thesis by (simp add: k Match_init_def)
qed

text \<open>
  C5, as amended. For a wavelength grid of length \<open>n \<ge> 6\<close>, the constructors of
  \<^verbatim>\<open>Match\<close> and \<^verbatim>\<open>MatchLincomb\<close> compute exactly five knots, the \<open>i\<close>-th being the grid
  value at index \<open>n div 6 * i\<close>; every knot index is at least 1 and at most \<open>n - 1\<close>, and
  it is strictly below \<open>n - 1\<close> as soon as \<open>n \<ge> 7\<close>.
\<close>

theorem knots_positions:
  assumes "6 \<le> length wav"
  shows "(\<exists>m. Match_init wav targ ref md op = Inr m
              \<and> knot_x m = map (\<lambda>i. wav ! (length wav div 6 * i)) [1 ..< 6])
       \<and> (\<forall>m. MatchLincomb_init ext wav targ refs vsini md op = Inr m
              \<longrightarrow> knot_x m = map (\<lambda>i. wav ! (length wav div 6 * i)) [1 ..< 6])
       \<and> (\<forall>i\<in>{1..5}. 0 < length wav div 6 * i \<and> length wav div 6 * i \<le> length wav - 1
              \<and> (7 \<le> length wav \<longrightarrow> length wav div 6 * i < length wav - 1))"
proof -
  from assms have ne: "wav \<noteq> []" by auto
  note k = add_spline_knots_nonempty [OF ne]
  have a: "\<exists>m. Match_init wav targ ref md op = Inr m
              \<and> knot_x m = map (\<lambda>i. wav ! (length wav div 6 * i)) [1 ..< 6]"
    by (simp add: Match_init_def k)
  have b: "\<forall>m. MatchLincomb_init ext wav targ refs vsini md op = Inr m
              \<longrightarrow> knot_x m = map (\<lambda>i. wav ! (length wav div 6 * i)) [1 ..< 6]"
    by (auto simp: MatchLincomb_init_def Let_def k bindE_eq_Inr)
  have c: "0 < length wav div 6 * i \<and> length wav div 6 * i \<le> length wav - 1
              \<and> (7 \<le> length wav \<longrightarrow> length wav div 6 * i < length wav - 1)"
    if "i \<in> {1..5}" for i
  proof -
    let ?q = "length wav div 6"
    from that have i: "1 \<le> i" "i \<le> 5" by auto
    from assms have q: "1 \<le> ?q" by (simp add: Suc_le_eq div_greater_zero_iff)
    have pos: "0 < ?q * i" using i q by simp
    have up: "?q * i \<le> ?q * 5" using i by simp
    have "?q * 5 \<le> length wav - 1" using assms by arith
    with up have le: "?q * i \<le> length wav - 1" by (rule le_trans)
    have "7 \<le> length wav \<longrightarrow> ?q * 5 < length wav - 1" by arith
    with up have lt: "7 \<le> length wav \<longrightarrow> ?q * i < length wav - 1"
      by (blast intro: le_less_trans)
    from pos le lt show ?thesis by blast
  qed
  from a b c show ?thesis by blast
qed

text \<open>
  C5, the amended statement at a grid of seven samples.
\<close>

theorem knots_positions_witness:
  "(\<exists>m. Match_init grid7 (flat7, flat7) (flat7, flat7) ''default'' ''lm'' = Inr m
        \<and> knot_x m = [5001, 5002, 5003, 5004, 5005])
   \<and> (\<exists>m. MatchLincomb_init unit_externals grid7 (flat7, flat7) [(flat7, flat7)] [0] ''default'' ''lm'' = Inr m
        \<and> knot_x m = [5001, 5002, 5003, 5004, 5005])
   \<and> (0::nat) < 1 * 5 \<and> (1::nat) * 5 < 7 - 1"
proof -
  have len: "6 \<le> length grid7" by (simp add: grid7_def)
  have up: "[1 ..< 6] = [1, 2, 3, 4, 5::nat]" by (simp add: upt_conv_Cons)
  have vals: "map (\<lambda>i. grid7 ! (length grid7 div 6 * i)) [1 ..< 6] = [5001, 5002, 5003, 5004, 5005]"
    unfolding up by (simp add: grid7_def)
  have br: "broaden unit_externals grid7 0 flat7 = Inr flat7"
    by (simp add: broaden_def unit_externals_def grid7_def Let_def)
  have lin: "\<exists>m. MatchLincomb_init unit_externals grid7 (flat7, flat7) [(flat7, flat7)] [0] ''default'' ''lm'' = Inr m"
  proof -
    have "grid7 \<noteq> []" by (simp add: grid7_def)
    then show ?thesis
      by (simp add: MatchLincomb_init_def Let_def br np_assign_row_def
            add_spline_knots_nonempty)
  qed
  from knots_positions [OF len, of "(flat7, flat7)" "(flat7, flat7)" "''default''" "''lm''"
      unit_externals "[(flat7, flat7)]" "[0]"] lin
  show ?thesis unfolding vals by auto
qed

text \<open>
  C6 as stated fails: called with a container whose \<^verbatim>\<open>vsini\<close> is 5, on the instance
  whose optimizer finishes with the parameters it was started from, \<^verbatim>\<open>best_fit\<close> ends
  with \<^verbatim>\<open>vsini\<close> equal to 1, the default, not 5.
\<close>

theorem supplied_vsini_counterexample:
  "Match_best_fit unit_externals (Suc (Suc 0)) (Some (vsini_params 5)) (match7 ''default'' ''nelder'')
   = Inr (Scalar 700, (fitted7 ''default'' ''nelder'')\<lparr>best_chisq := Scalar 700,
                         best_params := vsini_params 1\<rparr>)
   \<and> param_value (vsini_params 5) ''vsini'' = Inr 5
   \<and> param_value (vsini_params 1) ''vsini'' = Inr 1"
proof -
  have p: "Parameters_add (case Some (vsini_params 5) of None \<Rightarrow> Map.empty | Some p \<Rightarrow> p)
             ''vsini'' 1 (Some 0) (Some 10) True = vsini_params 1"
    by (simp add: vsini_params_def Parameters_add_def)
  have v: "param_value (vsini_params x) ''vsini'' = Inr x" for x
    by (simp add: vsini_params_def Parameters_add_def param_value_def)
  from match7_best_fit(2) [OF p] v show ?thesis by simp
qed

text \<open>
  C6, as amended. For both optimizer kinds, the parameters \<^verbatim>\<open>Match.best_fit\<close> starts the
  optimizer from hold \<^verbatim>\<open>vsini\<close> with the value 1.0 and the bounds 0 and 10, whatever the
  caller's container holds under that name, and every other entry of the caller's
  container as it is. So the outcome does not depend on the \<^verbatim>\<open>vsini\<close> supplied, and a
  container holding \<^verbatim>\<open>vsini\<close> alone gives what no container gives.
\<close>

theorem best_fit_overwrites_vsini:
  "(opt self = ''lm'' \<longrightarrow>
      Match_best_fit ext fuel params_arg self
      = (case lmfit_minimize
                (minimizer ext ''leastsq''
                   (\<lambda>name. if name = ''vsini''
                            then Some \<lparr>pvalue = 1, pmin = Some 0, pmax = Some 10, vary = True\<rparr>
                            else (case params_arg of None \<Rightarrow> None | Some p \<Rightarrow> p name)))
                (Match_objective (Match_create_model ext)) fuel [] self of
           Inl e \<Rightarrow> Inl e
         | Inr (out, s1) \<Rightarrow>
             (case Match_objective (Match_create_model ext) out s1 of
                Inl e \<Rightarrow> Inl e
              | Inr (v, s2) \<Rightarrow>
                  (case np_sum_sq v of
                     Inl e \<Rightarrow> Inl e
                   | Inr c \<Rightarrow> Inr (c, s2\<lparr>best_chisq := c, best_params := out\<rparr>)))))
   \<and> (opt self = ''nelder'' \<longrightarrow>
      Match_best_fit ext fuel params_arg self
      = (case lmfit_minimize
                (minimizer ext ''nelder''
                   (\<lambda>name. if name = ''vsini''
                            then Some \<lparr>pvalue = 1, pmin = Some 0, pmax = Some 10, vary = True\<rparr>
                            else (case params_arg of None \<Rightarrow> None | Some p \<Rightarrow> p name)))
                (Match_objective (Match_create_model ext)) fuel [] self of
           Inl e \<Rightarrow> Inl e
         | Inr (out, s1) \<Rightarrow>
             (case Match_objective (Match_create_model ext) out s1 of
                Inl e \<Rightarrow> Inl e
              | Inr (v, s2) \<Rightarrow> Inr (v, s2\<lparr>best_chisq := v, best_params := out\<rparr>))))
   \<and> Match_best_fit ext fuel (Some (p(''vsini'' \<mapsto> q))) self
     = Match_best_fit ext fuel (Some (p(''vsini'' \<mapsto> q'))) self
   \<and> Match_best_fit ext fuel (Some (Map.empty(''vsini'' \<mapsto> q))) self
     = Match_best_fit ext fuel None self"
proof -
  let ?start = "\<lambda>name. if name = ''vsini''
                  then Some \<lparr>pvalue = 1, pmin = Some 0, pmax = Some 10, vary = True\<rparr>
                  else (case params_arg of None \<Rightarrow> None | Some p \<Rightarrow> p name)"
  have st: "Parameters_add (case params_arg of None \<Rightarrow> Map.empty | Some p \<Rightarrow> p)
              ''vsini'' 1 (Some 0) (Some 10) True = ?start"
    by (cases params_arg) (simp_all add: Parameters_add_def fun_eq_iff)
  have a: "opt self = ''lm'' \<longrightarrow>
      Match_best_fit ext fuel params_arg self
      = (case lmfit_minimize (minimizer ext ''leastsq'' ?start)
                (Match_objective (Match_create_model ext)) fuel [] self of
           Inl e \<Rightarrow> Inl e
         | Inr (out, s1) \<Rightarrow>
             (case Match_objective (Match_create_model ext) out s1 of
                Inl e \<Rightarrow> Inl e
              | Inr (v, s2) \<Rightarrow>
                  (case np_sum_sq v of
                     Inl e \<Rightarrow> Inl e
                   | Inr c \<Rightarrow> Inr (c, s2\<lparr>best_chisq := c, best_params := out\<rparr>))))"
    unfolding Match_best_fit_def Let_def st
    by (simp add: bindE_def split: sum.splits prod.splits)
  have b: "opt self = ''nelder'' \<longrightarrow>
      Match_best_fit ext fuel params_arg self
      = (case lmfit_minimize (minimizer ext ''nelder'' ?start)
                (Match_objective (Match_create_model ext)) fuel [] self of
           Inl e \<Rightarrow> Inl e
         | Inr (out, s1) \<Rightarrow>
             (case Match_objective (Match_create_model ext) out s1 of
                Inl e \<Rightarrow> Inl e
              | Inr (v, s2) \<Rightarrow> Inr (v, s2\<lparr>best_chisq := v, best_params := out\<rparr>)))"
    unfolding Match_best_fit_def Let_def st
    by (simp add: bindE_def split: sum.splits prod.splits)
  have c: "Match_best_fit ext fuel (Some (p(''vsini'' \<mapsto> q))) self
     = Match_best_fit ext fuel (Some (p(''vsini'' \<mapsto> q'))) self"
    by (simp add: Match_best_fit_def Parameters_add_def)
  have d: "Match_best_fit ext fuel (Some (Map.empty(''vsini'' \<mapsto> q))) self
     = Match_best_fit ext fuel None self"
    by (simp add: Match_best_fit_def Parameters_add_def)
  from a b c d show ?thesis by (intro conjI)
qed

text \<open>
  C6, the amended statement on the seven-sample instance, for both kinds: the caller passes
  \<^verbatim>\<open>vsini\<close> = 5 and an entry \<^verbatim>\<open>teff\<close>; the optimizer, which finishes with the parameters
  it was started from, ends with \<^verbatim>\<open>vsini\<close> = 1 in the bounds 0 and 10 and with the caller's
  \<^verbatim>\<open>teff\<close>.
\<close>

theorem best_fit_overwrites_vsini_witness:
  "Match_best_fit unit_externals (Suc (Suc 0)) (Some caller_params) (match7 ''default'' ''nelder'')
   = Inr (Scalar 700,
          (fitted7 ''default'' ''nelder'')\<lparr>best_chisq := Scalar 700,
             best_params := (\<lambda>name. if name = ''vsini''
                 then Some \<lparr>pvalue = 1, pmin = Some 0, pmax = Some 10, vary = True\<rparr>
                 else caller_params name)\<rparr>)
   \<and> Match_best_fit unit_externals (Suc (Suc 0)) (Some caller_params) (match7 ''default'' ''lm'')
   = Inr (Scalar 700,
          (fitted7 ''default'' ''lm'')\<lparr>best_chisq := Scalar 700,
             best_params := (\<lambda>name. if name = ''vsini''
                 then Some \<lparr>pvalue = 1, pmin = Some 0, pmax = Some 10, vary = True\<rparr>
                 else caller_params name)\<rparr>)
   \<and> caller_params ''vsini'' = Some \<lparr>pvalue = 5, pmin = Some 0, pmax = Some 10, vary = True\<rparr>
   \<and> caller_params ''teff'' = Some \<lparr>pvalue = 5800, pmin = None, pmax = None, vary = False\<rparr>"
proof -
  let ?start = "\<lambda>name. if name = ''vsini''
                 then Some \<lparr>pvalue = 1, pmin = Some 0, pmax = Some 10, vary = True\<rparr>
                 else (case Some caller_params of None \<Rightarrow> None | Some p \<Rightarrow> p name)"
  have v: "?start ''vsini'' = Some \<lparr>pvalue = 1, pmin = Some 0, pmax = Some 10, vary = True\<rparr>"
    by simp
  have s: "?start = (\<lambda>name. if name = ''vsini''
                 then Some \<lparr>pvalue = 1, pmin = Some 0, pmax = Some 10, vary = True\<rparr>
                 else caller_params name)"
    by (simp add: fun_eq_iff)
  have ne: "Match_best_fit unit_externals (Suc (Suc 0)) (Some caller_params) (match7 ''default'' ''nelder'')
   = Inr (Scalar 700, (fitted7 ''default'' ''nelder'')\<lparr>best_chisq := Scalar 700, best_params := ?start\<rparr>)"
    unfolding best_fit_overwrites_vsini [THEN conjunct2, THEN conjunct1, rule_format,
        OF match7_opt] match7_minimize_any_vsini [where params = ?start, OF v]
    by (simp add: unit_objective_any_vsini [where params = ?start, OF v] match7_objective_default)
  have lm: "Match_best_fit unit_externals (Suc (Suc 0)) (Some caller_params) (match7 ''default'' ''lm'')
   = Inr (Scalar 700, (fitted7 ''default'' ''lm'')\<lparr>best_chisq := Scalar 700, best_params := ?start\<rparr>)"
    unfolding best_fit_overwrites_vsini [THEN conjunct1, rule_format, OF match7_opt]
      match7_minimize_any_vsini [where params = ?start, OF v]
    by (simp add: unit_objective_any_vsini [where params = ?start, OF v] match7_objective_default
        np_sum_sq_def np_sum_def np_square_def)
  have c: "caller_params ''vsini'' = Some \<lparr>pvalue = 5, pmin = Some 0, pmax = Some 10, vary = True\<rparr>"
    "caller_params ''teff'' = Some \<lparr>pvalue = 5800, pmin = None, pmax = None, vary = False\<rparr>"
    by (simp_all add: caller_params_def Parameters_add_def)
  from ne lm c show ?thesis unfolding s by (intro conjI)
qed

text \<open>
  C7 as stated fails: a grid of six samples with a target flux of three samples is
  accepted, and the object is built.
\<close>

theorem shape_mismatch_counterexample:
  "Match_init [10, 11, 12, 13, 14, 15] ([1, 2, 3], [1, 1, 1]) ([1, 1, 1, 1, 1, 1], [1, 1, 1, 1, 1, 1])
     ''default'' ''lm''
   = Inr \<lparr>w = [10, 11, 12, 13, 14, 15], s_targ = [1, 2, 3], serr_targ = [1, 1, 1],
          best_params = Map.empty, best_chisq = NaN, mode = ''default'', opt = ''lm'',
          knot_x = [11, 12, 13, 14, 15], s_mod = None, serr_mod = None, spl = None,
          s_ref = [1, 1, 1, 1, 1, 1], serr_ref = [1, 1, 1, 1, 1, 1]\<rparr>"
proof -
  have up: "[Suc 0 ..< 6] = [1, 2, 3, 4, 5]" by (simp add: upt_conv_Cons)
  show ?thesis by (simp add: Match_init_def add_spline_knots_nonempty up)
qed

text \<open>
  C7, as amended. The constructor of \<^verbatim>\<open>Match\<close> compares no lengths: on every non-empty
  wavelength grid it succeeds, whatever the lengths of the target and reference sequences,
  and stores them as given.
\<close>

theorem Match_init_no_length_check:
  assumes "wav \<noteq> []"
  shows "\<exists>m. Match_init wav targ ref md op = Inr m
             \<and> w m = wav \<and> s_targ m = fst targ \<and> serr_targ m = snd targ
             \<and> s_ref m = fst ref \<and> serr_ref m = snd ref"
  by (simp add: Match_init_def add_spline_knots_nonempty [OF assms])

text \<open>
  C7, the amended statement at a grid of seven samples and a target of three.
\<close>

theorem Match_init_no_length_check_witness:
  "\<exists>m. Match_init grid7 ([1, 2, 3], [1, 1, 1]) (flat7, flat7) ''default'' ''lm'' = Inr m
       \<and> w m = grid7 \<and> s_targ m = [1, 2, 3]"
proof -
  have "grid7 \<noteq> []" by (simp add: grid7_def)
  from Match_init_no_length_check [OF this, of "([1, 2, 3], [1, 1, 1])" "(flat7, flat7)" "''default''" "''lm''"]
  show ?thesis by auto
qed

text \<open>
  C8. On a freshly constructed \<^verbatim>\<open>Match\<close>, \<^verbatim>\<open>best_residuals\<close> returns no value: it
  raises, because the attribute \<^verbatim>\<open>s_mod\<close> that only \<^verbatim>\<open>create_model\<close> sets does not
  exist yet (Python's AttributeError is the invalid-state failure of the specification).
\<close>

theorem best_residuals_before_fit:
  assumes "Match_init wav targ ref md op = Inr m"
  shows "best_residuals m = Inl (AttributeError ''s_mod'')"
  using assms
  by (auto simp: Match_init_def bindE_eq_Inr best_residuals_def residuals_def)

text \<open>
  C8 at a concrete construction.
\<close>

theorem best_residuals_before_fit_witness:
  "Match_init grid7 (flat7, flat7) (flat7, flat7) ''normalized'' ''nelder'' \<noteq> Inl IndexError
   \<and> best_residuals (projr (Match_init grid7 (flat7, flat7) (flat7, flat7) ''normalized'' ''nelder''))
     = Inl (AttributeError ''s_mod'')"
proof -
  have "grid7 \<noteq> []" by (simp add: grid7_def)
  then obtain m where m: "Match_init grid7 (flat7, flat7) (flat7, flat7) ''normalized'' ''nelder'' = Inr m"
    by (auto simp: Match_init_def add_spline_knots_nonempty)
  from best_residuals_before_fit [OF m] m show ?thesis by simp
qed

text \<open>
  C9. \<^verbatim>\<open>create_model\<close> followed by \<^verbatim>\<open>objective\<close> is deterministic: run a second time
  with the same parameters on the object the first run left behind, it returns the same
  value and leaves the same object. (The collaborators are functions of their arguments.)
\<close>

theorem create_model_objective_deterministic:
  assumes "bindE (Match_create_model ext params self)
             (Match_objective (Match_create_model ext) params) = Inr (v, self')"
  shows "bindE (Match_create_model ext params self')
             (Match_objective (Match_create_model ext) params) = Inr (v, self')"
proof -
  from assms obtain s1 where cm: "Match_create_model ext params self = Inr s1"
    and ob: "Match_objective (Match_create_model ext) params s1 = Inr (v, self')"
    by (auto simp: bindE_eq_Inr)
  have "Match_create_model ext params s1 = Inr self'"
    using ob by (rule Match_objective_state)
  with Match_create_model_idem [OF cm] have eq: "self' = s1" by simp
  from Match_create_model_idem [OF cm] ob show ?thesis
    unfolding eq by simp
qed

text \<open>
  C9 on the seven-sample instance: both runs return the residuals 2.
\<close>

theorem create_model_objective_deterministic_witness:
  "bindE (Match_create_model unit_externals (vsini_params 1) (match7 ''normalized'' ''lm''))
     (Match_objective (Match_create_model unit_externals) (vsini_params 1))
   = Inr (Array [2, 2, 2, 2, 2, 2, 2],
          (match7 ''normalized'' ''lm'')\<lparr>s_mod := Some flat7, serr_mod := Some [4, 4, 4, 4, 4, 4, 4],
                          spl := Some flat7\<rparr>)
   \<and> bindE (Match_create_model unit_externals (vsini_params 1)
        ((match7 ''normalized'' ''lm'')\<lparr>s_mod := Some flat7, serr_mod := Some [4, 4, 4, 4, 4, 4, 4],
                          spl := Some flat7\<rparr>))
     (Match_objective (Match_create_model unit_externals) (vsini_params 1))
   = Inr (Array [2, 2, 2, 2, 2, 2, 2],
          (match7 ''normalized'' ''lm'')\<lparr>s_mod := Some flat7, serr_mod := Some [4, 4, 4, 4, 4, 4, 4],
                          spl := Some flat7\<rparr>)"
proof -
  let ?s1 = "(match7 ''normalized'' ''lm'')\<lparr>s_mod := Some flat7,
               serr_mod := Some [4, 4, 4, 4, 4, 4, 4], spl := Some flat7\<rparr>"
  have cm: "Match_create_model unit_externals (vsini_params 1) (match7 ''normalized'' ''lm'') = Inr ?s1"
    by (rule match7_create_model)
  have cm1: "Match_create_model unit_externals (vsini_params 1) ?s1 = Inr ?s1"
    using cm by (rule Match_create_model_idem)
  have res: "residuals ?s1 = Inr [2, 2, 2, 2, 2, 2, 2]"
    by (simp add: residuals_def match7_def flat7_def np_binop_def np_square_def np_sqrt_def sqrt25)
  have ob: "Match_objective (Match_create_model unit_externals) (vsini_params 1) ?s1
            = Inr (Array [2, 2, 2, 2, 2, 2, 2], ?s1)"
    by (simp add: Match_objective_def cm1 res) (simp add: match7_def)
  have first: "bindE (Match_create_model unit_externals (vsini_params 1) (match7 ''normalized'' ''lm''))
     (Match_objective (Match_create_model unit_externals) (vsini_params 1))
     = Inr (Array [2, 2, 2, 2, 2, 2, 2], ?s1)"
    by (simp add: cm ob)
  from first create_model_objective_deterministic [OF first] show ?thesis by simp
qed

text \<open>
  C10. With an optimizer kind that is neither \<^verbatim>\<open>lm\<close> nor \<^verbatim>\<open>nelder\<close>,
  \<^verbatim>\<open>Match.objective\<close> still runs \<^verbatim>\<open>create_model\<close> and computes the residuals, and
  then returns \<^verbatim>\<open>None\<close>: it fails only where \<^verbatim>\<open>create_model\<close> or the residual
  arithmetic fails, never because of the kind, and whenever it returns, the value is
  \<^verbatim>\<open>None\<close> and the object holds the model \<^verbatim>\<open>create_model\<close> has just written.
\<close>

theorem objective_unknown_opt:
  assumes "opt self \<noteq> ''lm''" and "opt self \<noteq> ''nelder''"
  shows "Match_objective (Match_create_model ext) params self
         = (case Match_create_model ext params self of
              Inl e \<Rightarrow> Inl e
            | Inr self' \<Rightarrow> (case residuals self' of Inl e \<Rightarrow> Inl e | Inr res \<Rightarrow> Inr (NoneV, self')))
       \<and> (\<forall>v self'. Match_objective (Match_create_model ext) params self = Inr (v, self') \<longrightarrow>
            v = NoneV \<and> Match_create_model ext params self = Inr self' \<and> s_mod self' \<noteq> None
            \<and> serr_mod self' \<noteq> None \<and> spl self' \<noteq> None)"
proof -
  have a: "Match_objective (Match_create_model ext) params self
         = (case Match_create_model ext params self of
              Inl e \<Rightarrow> Inl e
            | Inr self' \<Rightarrow> (case residuals self' of Inl e \<Rightarrow> Inl e | Inr res \<Rightarrow> Inr (NoneV, self')))"
  proof (cases "Match_create_model ext params self")
    case (Inl e)
    then show ?thesis by (simp add: Match_objective_def)
  next
    case (Inr s1)
    from Match_create_model_keeps(1) [OF Inr] assms
    have o: "opt s1 \<noteq> ''lm''" "opt s1 \<noteq> ''nelder''" by simp_all
    show ?thesis
    proof (cases "residuals s1")
      case (Inl e)
      with Inr show ?thesis by (simp add: Match_objective_def)
    next
      case r: (Inr res)
      with Inr o show ?thesis by (simp add: Match_objective_def Let_def)
    qed
  qed
  have b: "v = NoneV \<and> Match_create_model ext params self = Inr self' \<and> s_mod self' \<noteq> None
            \<and> serr_mod self' \<noteq> None \<and> spl self' \<noteq> None"
    if ob: "Match_objective (Match_create_model ext) params self = Inr (v, self')" for v self'
  proof -
    from ob have cm: "Match_create_model ext params self = Inr self'"
      by (rule Match_objective_state)
    from Match_create_model_result [OF cm] have m: "s_mod self' \<noteq> None \<and> serr_mod self' \<noteq> None
      \<and> spl self' \<noteq> None" by auto
    have "Inr (v, self') = (case residuals self' of Inl e \<Rightarrow> Inl e | Inr res \<Rightarrow> Inr (NoneV, self'))"
      using a unfolding ob cm by simp
    then have "v = NoneV" by (cases "residuals self'") simp_all
    with m cm show ?thesis by simp
  qed
  from a b show ?thesis by blast
qed

text \<open>
  C10 on the seven-sample instance with the kind \<^verbatim>\<open>powell\<close>.
\<close>

theorem objective_unknown_opt_witness:
  "Match_objective (Match_create_model unit_externals) (vsini_params 1) (match7 ''default'' ''powell'')
   = Inr (NoneV, (match7 ''default'' ''powell'')\<lparr>s_mod := Some flat7,
            serr_mod := Some [4, 4, 4, 4, 4, 4, 4], spl := Some flat7\<rparr>)"
proof -
  let ?s1 = "(match7 ''default'' ''powell'')\<lparr>s_mod := Some flat7,
               serr_mod := Some [4, 4, 4, 4, 4, 4, 4], spl := Some flat7\<rparr>"
  have o: "opt (match7 ''default'' ''powell'') \<noteq> ''lm''" "opt (match7 ''default'' ''powell'') \<noteq> ''nelder''"
    by (simp_all add: match7_def)
  have res: "residuals ?s1 = Inr [10, 10, 10, 10, 10, 10, 10]"
    by (simp add: residuals_def match7_def flat7_def np_binop_def)
  have "Match_objective (Match_create_model unit_externals) (vsini_params 1) (match7 ''default'' ''powell'')
    = (case Match_create_model unit_externals (vsini_params 1) (match7 ''default'' ''powell'') of
              Inl e \<Rightarrow> Inl e
            | Inr self' \<Rightarrow> (case residuals self' of Inl e \<Rightarrow> Inl e | Inr res \<Rightarrow> Inr (NoneV, self')))"
    using objective_unknown_opt [OF o, of unit_externals "vsini_params 1"] by (rule conjunct1)
  also have "\<dots> = Inr (NoneV, ?s1)"
    by (simp only: match7_create_model res sum.case)
  finally show ?thesis .
qed

end
